theory Spec2Isabelle
  imports Complex_Main "HOL-Library.Word" "HOL-Library.Sublist"
begin

unbundle bit_operations_syntax

section \<open>Data ingestion utilities: casting, validation, manifests\<close>

text \<open>
  A shallow embedding of \<^verbatim>\<open>app/utils/casting.py\<close>, \<^verbatim>\<open>app/utils/validate.py\<close> and
  \<^verbatim>\<open>app/utils/metadata.py\<close>.

  Conventions.
  \<^item> A Python \<^verbatim>\<open>str\<close> is a \<^typ>\<open>string\<close>; the character with code \<open>n\<close> stands for the
    code point \<open>n\<close>, so the model covers text in the range U+0000 to U+00FF.
  \<^item> Python \<^verbatim>\<open>bytes\<close> are lists of 8-bit words, Python integers are \<^typ>\<open>int\<close>.
  \<^item> An exception is a value of type \<open>error\<close>; a function that can raise returns
    \<open>error + 'a\<close>, and a function that also writes returns the new state beside it.
  \<^item> Library calls (pandas, hashlib, os.path, json, re) are modelled by their documented
    behaviour. What cannot be written down as a function of the arguments (the clock,
    the JSON text, text decoding, the numeric parser of pandas and the printing of
    floats) is a parameter, collected in the records \<open>env\<close> and \<open>pandas_lib\<close>.
\<close>

subsection \<open>Python strings\<close>

text \<open>\<^verbatim>\<open>str.isspace\<close> on one code point below 256.\<close>

definition py_isspace :: "char \<Rightarrow> bool" where
  "py_isspace c \<longleftrightarrow>
     c \<in> {CHR 0x09, CHR 0x0A, CHR 0x0B, CHR 0x0C, CHR 0x0D, CHR 0x1C, CHR 0x1D, CHR 0x1E,
          CHR 0x1F, CHR 0x20, CHR 0x85, CHR 0xA0}"

definition py_lstrip :: "string \<Rightarrow> string" where
  "py_lstrip s = dropWhile py_isspace s"

definition py_rstrip :: "string \<Rightarrow> string" where
  "py_rstrip s = rev (dropWhile py_isspace (rev s))"

text \<open>\<^verbatim>\<open>s.strip()\<close>\<close>

definition py_strip :: "string \<Rightarrow> string" where
  "py_strip s = py_rstrip (py_lstrip s)"

text \<open>\<^verbatim>\<open>s.strip(chars)\<close>\<close>

definition py_strip_chars :: "string \<Rightarrow> string \<Rightarrow> string" where
  "py_strip_chars chars s =
     rev (dropWhile (\<lambda>c. c \<in> set chars) (rev (dropWhile (\<lambda>c. c \<in> set chars) s)))"

text \<open>
  \<^verbatim>\<open>s.replace(old, new)\<close>: the occurrences of \<open>old\<close> are found from left to right
  and do not overlap. With an empty \<open>old\<close>, Python puts \<open>new\<close> before every character
  and at the end.
\<close>

function replace_scan :: "string \<Rightarrow> string \<Rightarrow> string \<Rightarrow> string" where
  "replace_scan old new [] = []"
| "replace_scan old new (c # cs) =
     (if old \<noteq> [] \<and> take (length old) (c # cs) = old
      then new @ replace_scan old new (drop (length old) (c # cs))
      else c # replace_scan old new cs)"
  by pat_completeness auto
termination
  by (relation "measure (\<lambda>(old, new, s). length s)") (auto simp: neq_Nil_conv)

definition py_replace :: "string \<Rightarrow> string \<Rightarrow> string \<Rightarrow> string" where
  "py_replace old new s =
     (if old = [] then new @ concat (map (\<lambda>c. c # new) s) else replace_scan old new s)"

text \<open>
  \<^verbatim>\<open>s.split(sep)\<close> for a non-empty \<open>sep\<close> (Python raises \<^verbatim>\<open>ValueError\<close> on an
  empty one; the only call is guarded by the truth value of the separator).
  \<open>cur\<close> is the piece read so far.
\<close>

function split_scan :: "string \<Rightarrow> string \<Rightarrow> string \<Rightarrow> string list" where
  "split_scan sep cur [] = [cur]"
| "split_scan sep cur (c # cs) =
     (if sep \<noteq> [] \<and> take (length sep) (c # cs) = sep
      then cur # split_scan sep [] (drop (length sep) (c # cs))
      else split_scan sep (cur @ [c]) cs)"
  by pat_completeness auto
termination
  by (relation "measure (\<lambda>(sep, cur, s). length s)") (auto simp: neq_Nil_conv)

definition py_split :: "string \<Rightarrow> string \<Rightarrow> string list" where
  "py_split sep s = split_scan sep [] s"

text \<open>\<^verbatim>\<open>sep.join(xs)\<close>\<close>

fun py_join :: "string \<Rightarrow> string list \<Rightarrow> string" where
  "py_join sep [] = []"
| "py_join sep [x] = x"
| "py_join sep (x # y # ys) = x @ sep @ py_join sep (y # ys)"

text \<open>
  \<^verbatim>\<open>re.sub('^"|"$', '', s)\<close>. The scan goes from left to right; \<open>start\<close> says that
  the scan is at position 0, the only place where \<^verbatim>\<open>^\<close> matches. Without the
  MULTILINE flag \<^verbatim>\<open>$\<close> matches at the end of the string and before a newline that
  ends the string.
\<close>

fun re_sub_quotes_scan :: "bool \<Rightarrow> string \<Rightarrow> string" where
  "re_sub_quotes_scan start [] = []"
| "re_sub_quotes_scan start (c # cs) =
     (if c = CHR 0x22 \<and> (start \<or> cs = [] \<or> cs = [CHR 0x0A])
      then re_sub_quotes_scan False cs
      else c # re_sub_quotes_scan False cs)"

definition re_sub_quotes :: "string \<Rightarrow> string" where
  "re_sub_quotes s = re_sub_quotes_scan True s"

text \<open>Decimal digits of a natural number, and \<^verbatim>\<open>str(i)\<close> for an integer.\<close>

function dec_digits :: "nat \<Rightarrow> string" where
  "dec_digits n =
     (if n < 10 then [''0123456789'' ! n]
      else dec_digits (n div 10) @ [''0123456789'' ! (n mod 10)])"
  by pat_completeness auto
termination
  by (relation "measure id") auto

declare dec_digits.simps [simp del]

definition py_str_int :: "int \<Rightarrow> string" where
  "py_str_int i = (if i < 0 then CHR ''-'' # dec_digits (nat (- i)) else dec_digits (nat i))"

definition hex_digit :: "nat \<Rightarrow> char" where
  "hex_digit n = ''0123456789abcdef'' ! (n mod 16)"

text \<open>
  \<^verbatim>\<open>repr(s)\<close> of a string: single quotes, unless the text has a single quote and no
  double quote; the quote in use and the backslash are escaped, so are tab, newline and
  carriage return, and every other code point that is not printable is written
  \<^verbatim>\<open>\xNN\<close>. Below 256 the non-printable code points are 0x00-0x1F and 0x7F-0xA0 and 0xAD.
\<close>

definition py_printable :: "char \<Rightarrow> bool" where
  "py_printable c \<longleftrightarrow>
     (let n = (of_char c :: nat) in 32 \<le> n \<and> n < 127 \<or> 160 < n \<and> n \<noteq> 173)"

definition repr_char :: "char \<Rightarrow> char \<Rightarrow> string" where
  "repr_char q c =
     (if c = q \<or> c = CHR 0x5C then [CHR 0x5C, c]
      else if c = CHR 0x09 then [CHR 0x5C, CHR ''t'']
      else if c = CHR 0x0A then [CHR 0x5C, CHR ''n'']
      else if c = CHR 0x0D then [CHR 0x5C, CHR ''r'']
      else if py_printable c then [c]
      else [CHR 0x5C, CHR ''x'', hex_digit (of_char c div 16), hex_digit (of_char c mod 16)])"

definition py_repr_str :: "string \<Rightarrow> string" where
  "py_repr_str s =
     (let q = (if CHR 0x27 \<in> set s \<and> CHR 0x22 \<notin> set s then CHR 0x22 else CHR 0x27)
      in [q] @ concat (map (repr_char q) s) @ [q])"

text \<open>\<^verbatim>\<open>repr(xs)\<close> of a list of strings, as an f-string prints it.\<close>

definition py_repr_list :: "string list \<Rightarrow> string" where
  "py_repr_list xs = ''['' @ py_join '', '' (map py_repr_str xs) @ '']''"

subsection \<open>Errors\<close>

text \<open>
  The exceptions that the modelled code raises: \<^verbatim>\<open>SchemaError\<close> of validate.py with
  its message, the \<^verbatim>\<open>TypeError\<close> of a pandas cast, \<^verbatim>\<open>FileNotFoundError\<close> and
  \<^verbatim>\<open>RuntimeError\<close> of metadata.py with their messages, and the \<^verbatim>\<open>ValueError\<close>
  of a read with a length that is not allowed.
\<close>

datatype error =
    SchemaError string
  | TypeError
  | FileNotFoundError string
  | RuntimeError string
  | ValueError

subsection \<open>Columns and datasets (pandas)\<close>

text \<open>
  A float64 value: \<open>Fin q\<close> is the finite float that denotes the rational \<open>q\<close>.
\<close>

datatype float64 = Fin rat | NaN | PosInf | NegInf

text \<open>
  The float of an integer, as \<^verbatim>\<open>astype(float)\<close> and the conversion of an integer
  inside a float64 column compute it: the nearest number with 53 significant bits, a tie
  going to the even one. \<open>bit_len\<close> is the number of bits of a natural number and
  \<open>round53\<close> rounds a magnitude; a magnitude that rounds to \<open>2 ^ 1024\<close> or more has
  no finite float. Integers of 64 bits are far below that; integer objects are taken to
  be below it as well.
\<close>

function bit_len :: "nat \<Rightarrow> nat" where
  "bit_len n = (if n = 0 then 0 else Suc (bit_len (n div 2)))"
  by pat_completeness auto
termination
  by (relation "measure id") auto

declare bit_len.simps [simp del]

definition round53 :: "nat \<Rightarrow> nat" where
  "round53 a =
     (let e = bit_len a - 53; q = a div 2 ^ e; r = a mod 2 ^ e
      in (if 2 ^ e < 2 * r \<or> 2 * r = 2 ^ e \<and> odd q then q + 1 else q) * 2 ^ e)"

definition float64_of_int :: "int \<Rightarrow> float64" where
  "float64_of_int i =
     (let v = round53 (nat \<bar>i\<bar>)
      in if 2 ^ 1024 \<le> v then (if i < 0 then NegInf else PosInf)
         else Fin (of_int (if i < 0 then - int v else int v)))"

text \<open>What the numeric parser of pandas makes of one text: an integer or a float.\<close>

datatype num = NInt int | NFloat float64

text \<open>
  The Python objects held by a column of dtype \<^verbatim>\<open>object\<close>: strings, integers, floats
  (a missing CSV field is the float NaN), \<^verbatim>\<open>None\<close> and \<^verbatim>\<open>pd.NA\<close>.
\<close>

datatype cell = PyStr string | PyInt int | PyFloat float64 | PyNone | PyNA

text \<open>
  A numeric column is one of dtype \<^verbatim>\<open>int64\<close>, \<^verbatim>\<open>float64\<close> or the nullable
  \<^verbatim>\<open>Int64\<close>; every other column of the pipeline has dtype \<^verbatim>\<open>object\<close>.
\<close>

datatype numeric =
    Int64Col "int list"
  | Float64Col "float64 list"
  | NullableInt64Col "int option list"

datatype column = ObjectCol "cell list" | NumericCol numeric

datatype dtype = Dt_int64 | Dt_Int64 | Dt_float64 | Dt_object

fun dtype_of :: "column \<Rightarrow> dtype" where
  "dtype_of (ObjectCol cs) = Dt_object"
| "dtype_of (NumericCol (Int64Col xs)) = Dt_int64"
| "dtype_of (NumericCol (Float64Col xs)) = Dt_float64"
| "dtype_of (NumericCol (NullableInt64Col xs)) = Dt_Int64"

text \<open>\<^verbatim>\<open>str(dtype)\<close> and \<^verbatim>\<open>dtype.kind\<close>\<close>

fun dtype_str :: "dtype \<Rightarrow> string" where
  "dtype_str Dt_int64 = ''int64''"
| "dtype_str Dt_Int64 = ''Int64''"
| "dtype_str Dt_float64 = ''float64''"
| "dtype_str Dt_object = ''object''"

fun dtype_kind :: "dtype \<Rightarrow> char" where
  "dtype_kind Dt_int64 = CHR ''i''"
| "dtype_kind Dt_Int64 = CHR ''i''"
| "dtype_kind Dt_float64 = CHR ''f''"
| "dtype_kind Dt_object = CHR ''O''"

text \<open>
  A dataset is the list of its columns in insertion order, each under its label. The
  labels are taken to be pairwise different and the columns of equal length.
\<close>

type_synonym dataframe = "(string \<times> column) list"

text \<open>\<^verbatim>\<open>df.columns\<close>\<close>

definition columns :: "dataframe \<Rightarrow> string list" where
  "columns df = map fst df"

text \<open>\<^verbatim>\<open>df[col] = v\<close>: an existing column keeps its place, a new one goes last.\<close>

definition setcol :: "dataframe \<Rightarrow> string \<Rightarrow> column \<Rightarrow> dataframe" where
  "setcol df c v =
     (if c \<in> set (columns df) then map (\<lambda>(k, old). if k = c then (k, v) else (k, old)) df
      else df @ [(c, v)])"

text \<open>
  The two pandas routines that depend on the floating-point library: the parser behind
  \<^verbatim>\<open>pd.to_numeric\<close> (\<open>None\<close> for a text that is not a number) and the printing of a
  finite float by \<^verbatim>\<open>astype(str)\<close>.
\<close>

record pandas_lib =
  parse_number :: "string \<Rightarrow> num option"
  float_repr :: "rat \<Rightarrow> string"

subsection \<open>casting.py\<close>

definition in_int64 :: "int \<Rightarrow> bool" where
  "in_int64 i \<longleftrightarrow> - (2 ^ 63) \<le> i \<and> i < 2 ^ 63"

text \<open>One object under \<^verbatim>\<open>errors="coerce"\<close>: what cannot be parsed becomes NaN.\<close>

fun coerce_cell :: "pandas_lib \<Rightarrow> cell \<Rightarrow> num" where
  "coerce_cell L (PyStr s) = (case parse_number L s of Some n \<Rightarrow> n | None \<Rightarrow> NFloat NaN)"
| "coerce_cell L (PyInt i) = NInt i"
| "coerce_cell L (PyFloat f) = NFloat f"
| "coerce_cell L PyNone = NFloat NaN"
| "coerce_cell L PyNA = NFloat NaN"

fun num_is_int64 :: "num \<Rightarrow> bool" where
  "num_is_int64 (NInt i) = in_int64 i"
| "num_is_int64 (NFloat f) = False"

fun num_ints :: "num \<Rightarrow> int list" where
  "num_ints (NInt i) = [i]"
| "num_ints (NFloat f) = []"

fun num_float :: "num \<Rightarrow> float64" where
  "num_float (NInt i) = float64_of_int i"
| "num_float (NFloat f) = f"

text \<open>
  \<^verbatim>\<open>pd.to_numeric(series, errors="coerce")\<close>: a numeric column is returned as it is;
  an object column becomes \<^verbatim>\<open>int64\<close> when every value is an integer of 64 bits and
  \<^verbatim>\<open>float64\<close> otherwise, and in a float64 column an integer is its float: above
  \<open>2 ^ 53\<close> it is rounded.
\<close>

fun to_numeric :: "pandas_lib \<Rightarrow> column \<Rightarrow> numeric" where
  "to_numeric L (NumericCol n) = n"
| "to_numeric L (ObjectCol cs) =
     (let ns = map (coerce_cell L) cs
      in if list_all num_is_int64 ns then Int64Col (concat (map num_ints ns))
         else Float64Col (map num_float ns))"

text \<open>
  A float on its way into an \<^verbatim>\<open>Int64\<close> column: NaN is the missing value, a float
  that is an integer of 64 bits is that integer, and for every other float pandas raises
  \<^verbatim>\<open>TypeError\<close> (cannot safely cast non-equivalent float64 to int64).
\<close>

fun float_to_Int64 :: "float64 \<Rightarrow> error + int option" where
  "float_to_Int64 NaN = Inr None"
| "float_to_Int64 (Fin q) =
     (if of_int \<lfloor>q\<rfloor> = q \<and> in_int64 \<lfloor>q\<rfloor> then Inr (Some \<lfloor>q\<rfloor>) else Inl TypeError)"
| "float_to_Int64 PosInf = Inl TypeError"
| "float_to_Int64 NegInf = Inl TypeError"

text \<open>The first error of a list of results, or all the values.\<close>

fun collect :: "(error + 'a) list \<Rightarrow> error + 'a list" where
  "collect [] = Inr []"
| "collect (Inl e # rs) = Inl e"
| "collect (Inr x # rs) = (case collect rs of Inl e \<Rightarrow> Inl e | Inr xs \<Rightarrow> Inr (x # xs))"

text \<open>\<^verbatim>\<open>.astype("Int64")\<close> on a numeric column\<close>

fun astype_Int64 :: "numeric \<Rightarrow> error + numeric" where
  "astype_Int64 (Int64Col xs) = Inr (NullableInt64Col (map Some xs))"
| "astype_Int64 (NullableInt64Col xs) = Inr (NullableInt64Col xs)"
| "astype_Int64 (Float64Col fs) =
     (case collect (map float_to_Int64 fs) of
        Inl e \<Rightarrow> Inl e
      | Inr xs \<Rightarrow> Inr (NullableInt64Col xs))"

text \<open>\<^verbatim>\<open>.astype(float)\<close> on a numeric column\<close>

fun astype_float :: "numeric \<Rightarrow> numeric" where
  "astype_float (Int64Col xs) = Float64Col (map float64_of_int xs)"
| "astype_float (Float64Col fs) = Float64Col fs"
| "astype_float (NullableInt64Col xs) =
     Float64Col (map (\<lambda>x. case x of None \<Rightarrow> NaN | Some i \<Rightarrow> float64_of_int i) xs)"

fun str_float :: "pandas_lib \<Rightarrow> float64 \<Rightarrow> string" where
  "str_float L (Fin q) = float_repr L q"
| "str_float L NaN = ''nan''"
| "str_float L PosInf = ''inf''"
| "str_float L NegInf = ''-inf''"

fun str_cell :: "pandas_lib \<Rightarrow> cell \<Rightarrow> string" where
  "str_cell L (PyStr s) = s"
| "str_cell L (PyInt i) = py_str_int i"
| "str_cell L (PyFloat f) = str_float L f"
| "str_cell L PyNone = ''None''"
| "str_cell L PyNA = ''<NA>''"

text \<open>\<^verbatim>\<open>.astype(str)\<close>: the text of every value, in an object column.\<close>

fun astype_str :: "pandas_lib \<Rightarrow> column \<Rightarrow> string list" where
  "astype_str L (ObjectCol cs) = map (str_cell L) cs"
| "astype_str L (NumericCol (Int64Col xs)) = map py_str_int xs"
| "astype_str L (NumericCol (Float64Col fs)) = map (str_float L) fs"
| "astype_str L (NumericCol (NullableInt64Col xs)) =
     map (\<lambda>x. case x of None \<Rightarrow> ''<NA>'' | Some i \<Rightarrow> py_str_int i) xs"

text \<open>\<^verbatim>\<open>pd.api.types.is_numeric_dtype(series)\<close>\<close>

fun is_numeric_dtype :: "column \<Rightarrow> bool" where
  "is_numeric_dtype (NumericCol n) = True"
| "is_numeric_dtype (ObjectCol cs) = False"

text \<open>
  \<^verbatim>\<open>
  def to_int(series):
      return pd.to_numeric(series, errors="coerce").astype("Int64")
  \<close>
\<close>

definition to_int :: "pandas_lib \<Rightarrow> column \<Rightarrow> error + column" where
  "to_int L series =
     (case astype_Int64 (to_numeric L series) of
        Inl e \<Rightarrow> Inl e
      | Inr n \<Rightarrow> Inr (NumericCol n))"

text \<open>
  \<^verbatim>\<open>
  def to_str(series):
      return series.astype(str).str.strip().str.replace('^"|"$', '', regex=True)
  \<close>
\<close>

definition to_str :: "pandas_lib \<Rightarrow> column \<Rightarrow> column" where
  "to_str L series =
     ObjectCol (map PyStr (map re_sub_quotes (map py_strip (astype_str L series))))"

text \<open>
  \<^verbatim>\<open>
  def to_float_pt(series):
      if pd.api.types.is_numeric_dtype(series):
          return pd.to_numeric(series, errors="coerce").astype(float)
      return (series.astype(str)
                    .str.replace(".", "", regex=False)
                    .str.replace(",", ".", regex=False)
                    .pipe(pd.to_numeric, errors="coerce")
                    .astype(float))
  \<close>
\<close>

definition to_float_pt :: "pandas_lib \<Rightarrow> column \<Rightarrow> column" where
  "to_float_pt L series =
     (if is_numeric_dtype series then NumericCol (astype_float (to_numeric L series))
      else NumericCol (astype_float (to_numeric L
             (ObjectCol (map PyStr
                (map (py_replace '','' ''.'')
                   (map (py_replace ''.'' '''') (astype_str L series))))))))"

text \<open>
  One loop of \<^verbatim>\<open>apply_casts\<close>:
  \<^verbatim>\<open>
  for col in fields:
      if col in df.columns:
          df[col] = cast(df[col])
  \<close>
  The dataset is updated column by column, so an exception leaves the columns cast so
  far in place: the loop returns the dataset beside the exception, if any.
\<close>

fun cast_loop ::
  "(column \<Rightarrow> error + column) \<Rightarrow> string list \<Rightarrow> dataframe \<Rightarrow> dataframe \<times> error option" where
  "cast_loop cast [] df = (df, None)"
| "cast_loop cast (col # cols) df =
     (case map_of df col of
        None \<Rightarrow> cast_loop cast cols df
      | Some series \<Rightarrow>
          (case cast series of
             Inl e \<Rightarrow> (df, Some e)
           | Inr series' \<Rightarrow> cast_loop cast cols (setcol df col series')))"

text \<open>
  Datasets are objects: a variable holds a reference, and the store gives the dataset
  behind every reference. \<^verbatim>\<open>apply_casts\<close> assigns to the columns of the dataset it is
  given and returns that same reference.
\<close>

type_synonym ref = nat
type_synonym store = "ref \<Rightarrow> dataframe"

definition apply_casts ::
  "pandas_lib \<Rightarrow> store \<Rightarrow> ref \<Rightarrow> string list \<Rightarrow> string list \<Rightarrow> string list
     \<Rightarrow> store \<times> (error + ref)" where
  "apply_casts L st df integer_fields string_fields float_fields =
     (case cast_loop (to_int L) integer_fields (st df) of
        (d1, Some e) \<Rightarrow> (st(df := d1), Inl e)
      | (d1, None) \<Rightarrow>
          (case cast_loop (\<lambda>c. Inr (to_str L c)) string_fields d1 of
             (d2, Some e) \<Rightarrow> (st(df := d2), Inl e)
           | (d2, None) \<Rightarrow>
               (case cast_loop (\<lambda>c. Inr (to_float_pt L c)) float_fields d2 of
                  (d3, Some e) \<Rightarrow> (st(df := d3), Inl e)
                | (d3, None) \<Rightarrow> (st(df := d3), Inr df))))"

text \<open>
  A parser for plain decimal literals (an optional sign, digits, an optional fraction),
  used for worked examples. On these texts it gives the number that pandas reads; pandas
  accepts more (exponents, surrounding blanks, \<^verbatim>\<open>inf\<close>), which is why the general
  statements hold for every parser.
\<close>

definition is_digit :: "char \<Rightarrow> bool" where
  "is_digit c \<longleftrightarrow> 48 \<le> (of_char c :: nat) \<and> (of_char c :: nat) \<le> 57"

definition digits_val :: "string \<Rightarrow> nat" where
  "digits_val ds = foldl (\<lambda>a c. 10 * a + (of_char c - 48)) 0 ds"

definition parse_unsigned :: "string \<Rightarrow> num option" where
  "parse_unsigned s =
     (let ip = takeWhile is_digit s; rest = dropWhile is_digit s
      in case rest of
           [] \<Rightarrow> (if ip = [] then None else Some (NInt (int (digits_val ip))))
         | c # fp \<Rightarrow>
             (if c = CHR ''.'' \<and> list_all is_digit fp \<and> (ip \<noteq> [] \<or> fp \<noteq> [])
              then Some (NFloat (Fin (of_nat (digits_val ip)
                                       + of_nat (digits_val fp) / 10 ^ length fp)))
              else None))"

fun num_neg :: "num \<Rightarrow> num" where
  "num_neg (NInt i) = NInt (- i)"
| "num_neg (NFloat (Fin q)) = NFloat (Fin (- q))"
| "num_neg (NFloat f) = NFloat f"

definition parse_decimal :: "string \<Rightarrow> num option" where
  "parse_decimal s =
     (case s of
        [] \<Rightarrow> None
      | c # cs \<Rightarrow>
          (if c = CHR ''-'' then map_option num_neg (parse_unsigned cs)
           else if c = CHR ''+'' then parse_unsigned cs
           else parse_unsigned s))"

definition decimal_lib :: pandas_lib where
  "decimal_lib = \<lparr>parse_number = parse_decimal, float_repr = (\<lambda>q. ''?'')\<rparr>"

subsection \<open>validate.py\<close>

text \<open>
  \<^verbatim>\<open>
  def ensure_required_columns(df, required):
      missing = [c for c in required if c not in df.columns]
      if missing:
          raise SchemaError(f"Colunas ausentes no DataFrame: {missing}")
  \<close>
\<close>

definition ensure_required_columns :: "dataframe \<Rightarrow> string list \<Rightarrow> error + unit" where
  "ensure_required_columns df required =
     (let missing = filter (\<lambda>c. c \<notin> set (columns df)) required
      in if missing \<noteq> []
         then Inl (SchemaError (''Colunas ausentes no DataFrame: '' @ py_repr_list missing))
         else Inr ())"

text \<open>
  The three loops of \<^verbatim>\<open>check_dtypes\<close>, each appending to \<^verbatim>\<open>wrong\<close> a triple of the
  column, the expected type and \<^verbatim>\<open>str(df[col].dtype)\<close>:
  \<^verbatim>\<open>
  for col in integer_fields:
      if col in df.columns and str(df[col].dtype) != "Int64":
          wrong.append((col, "Int64", str(df[col].dtype)))
  for col in string_fields:
      if col in df.columns and df[col].dtype.kind != "O":
          wrong.append((col, "string(object)", str(df[col].dtype)))
  for col in float_fields:
      if col in df.columns and df[col].dtype.kind != "f":
          wrong.append((col, "float", str(df[col].dtype)))
  \<close>
\<close>

definition wrong_int :: "dataframe \<Rightarrow> string \<Rightarrow> (string \<times> string \<times> string) list" where
  "wrong_int df col =
     (case map_of df col of
        None \<Rightarrow> []
      | Some series \<Rightarrow>
          (if dtype_str (dtype_of series) \<noteq> ''Int64''
           then [(col, ''Int64'', dtype_str (dtype_of series))] else []))"

definition wrong_str :: "dataframe \<Rightarrow> string \<Rightarrow> (string \<times> string \<times> string) list" where
  "wrong_str df col =
     (case map_of df col of
        None \<Rightarrow> []
      | Some series \<Rightarrow>
          (if dtype_kind (dtype_of series) \<noteq> CHR ''O''
           then [(col, ''string(object)'', dtype_str (dtype_of series))] else []))"

definition wrong_float :: "dataframe \<Rightarrow> string \<Rightarrow> (string \<times> string \<times> string) list" where
  "wrong_float df col =
     (case map_of df col of
        None \<Rightarrow> []
      | Some series \<Rightarrow>
          (if dtype_kind (dtype_of series) \<noteq> CHR ''f''
           then [(col, ''float'', dtype_str (dtype_of series))] else []))"

text \<open>\<^verbatim>\<open>f"{c} esperado {e}, encontrado {f}"\<close>\<close>

definition wrong_entry :: "string \<times> string \<times> string \<Rightarrow> string" where
  "wrong_entry w = (case w of (c, e, f) \<Rightarrow> c @ '' esperado '' @ e @ '', encontrado '' @ f)"

text \<open>
  \<^verbatim>\<open>
  def check_dtypes(df, integer_fields, string_fields, float_fields):
      wrong = []
      ... the three loops ...
      if wrong:
          msg = "; ".join([f"{c} esperado {e}, encontrado {f}" for c, e, f in wrong])
          raise SchemaError(f"Tipos incorretos ap.s cast: {msg}")
  \<close>
  The sixth letter of the second word of the message is an o with acute accent, the
  code point 0xF3.
\<close>

definition check_dtypes ::
  "dataframe \<Rightarrow> string list \<Rightarrow> string list \<Rightarrow> string list \<Rightarrow> error + unit" where
  "check_dtypes df integer_fields string_fields float_fields =
     (let wrong = concat (map (wrong_int df) integer_fields)
                  @ concat (map (wrong_str df) string_fields)
                  @ concat (map (wrong_float df) float_fields)
      in if wrong \<noteq> []
         then Inl (SchemaError (''Tipos incorretos ap'' @ [CHR 0xF3] @ ''s cast: ''
                                  @ py_join ''; '' (map wrong_entry wrong)))
         else Inr ())"

subsection \<open>hashlib.md5\<close>

text \<open>
  MD5 as in RFC 1321, on 32-bit words. The hash object of \<^verbatim>\<open>hashlib\<close> keeps the
  chaining value, the bytes of the block that is not yet full, and the number of bytes
  seen; \<^verbatim>\<open>update\<close> runs the compression function over every block that it can
  complete, and \<^verbatim>\<open>hexdigest\<close> pads what is left.
\<close>

type_synonym byte = "8 word"
type_synonym bytes = "byte list"
type_synonym u32 = "32 word"
type_synonym md5_words = "u32 \<times> u32 \<times> u32 \<times> u32"

definition md5_K :: "u32 list" where
  "md5_K =
    [0xd76aa478, 0xe8c7b756, 0x242070db, 0xc1bdceee, 0xf57c0faf, 0x4787c62a, 0xa8304613,
     0xfd469501, 0x698098d8, 0x8b44f7af, 0xffff5bb1, 0x895cd7be, 0x6b901122, 0xfd987193,
     0xa679438e, 0x49b40821, 0xf61e2562, 0xc040b340, 0x265e5a51, 0xe9b6c7aa, 0xd62f105d,
     0x02441453, 0xd8a1e681, 0xe7d3fbc8, 0x21e1cde6, 0xc33707d6, 0xf4d50d87, 0x455a14ed,
     0xa9e3e905, 0xfcefa3f8, 0x676f02d9, 0x8d2a4c8a, 0xfffa3942, 0x8771f681, 0x6d9d6122,
     0xfde5380c, 0xa4beea44, 0x4bdecfa9, 0xf6bb4b60, 0xbebfbc70, 0x289b7ec6, 0xeaa127fa,
     0xd4ef3085, 0x04881d05, 0xd9d4d039, 0xe6db99e5, 0x1fa27cf8, 0xc4ac5665, 0xf4292244,
     0x432aff97, 0xab9423a7, 0xfc93a039, 0x655b59c3, 0x8f0ccc92, 0xffeff47d, 0x85845dd1,
     0x6fa87e4f, 0xfe2ce6e0, 0xa3014314, 0x4e0811a1, 0xf7537e82, 0xbd3af235, 0x2ad7d2bb,
     0xeb86d391]"

definition md5_S :: "nat list" where
  "md5_S =
    [7, 12, 17, 22, 7, 12, 17, 22, 7, 12, 17, 22, 7, 12, 17, 22,
     5, 9, 14, 20, 5, 9, 14, 20, 5, 9, 14, 20, 5, 9, 14, 20,
     4, 11, 16, 23, 4, 11, 16, 23, 4, 11, 16, 23, 4, 11, 16, 23,
     6, 10, 15, 21, 6, 10, 15, 21, 6, 10, 15, 21, 6, 10, 15, 21]"

text \<open>The 32-bit words of a block, least significant byte first.\<close>

fun le_words :: "bytes \<Rightarrow> u32 list" where
  "le_words (b0 # b1 # b2 # b3 # rest) =
     (ucast b0 OR push_bit 8 (ucast b1) OR push_bit 16 (ucast b2) OR push_bit 24 (ucast b3))
       # le_words rest"
| "le_words bs = []"

definition le_bytes32 :: "u32 \<Rightarrow> bytes" where
  "le_bytes32 w = map (\<lambda>i. ucast (drop_bit (8 * i) w)) [0, 1, 2, 3]"

definition le_bytes64 :: "64 word \<Rightarrow> bytes" where
  "le_bytes64 w = map (\<lambda>i. ucast (drop_bit (8 * i) w)) [0, 1, 2, 3, 4, 5, 6, 7]"

text \<open>Operation \<open>i\<close> of the 64 operations on one block with words \<open>M\<close>.\<close>

fun md5_step :: "u32 list \<Rightarrow> nat \<Rightarrow> md5_words \<Rightarrow> md5_words" where
  "md5_step M i (a, b, c, d) =
     (let (f, g) =
            (if i < 16 then ((b AND c) OR (NOT b AND d), i)
             else if i < 32 then ((d AND b) OR (NOT d AND c), (5 * i + 1) mod 16)
             else if i < 48 then (b XOR c XOR d, (3 * i + 5) mod 16)
             else (c XOR (b OR NOT d), (7 * i) mod 16));
          f' = f + a + md5_K ! i + M ! g
      in (d, b + word_rotl (md5_S ! i) f', b, c))"

definition md5_compress :: "md5_words \<Rightarrow> bytes \<Rightarrow> md5_words" where
  "md5_compress h blk =
     (case (h, fold (md5_step (le_words blk)) [0..<64] h) of
        ((a0, b0, c0, d0), (a, b, c, d)) \<Rightarrow> (a0 + a, b0 + b, c0 + c, d0 + d))"

text \<open>The compression function over every complete block of 64 bytes.\<close>

function md5_blocks :: "md5_words \<Rightarrow> bytes \<Rightarrow> md5_words" where
  "md5_blocks h bs =
     (if length bs < 64 then h else md5_blocks (md5_compress h (take 64 bs)) (drop 64 bs))"
  by pat_completeness auto
termination
  by (relation "measure (\<lambda>(h, bs). length bs)") auto

declare md5_blocks.simps [simp del]

definition md5_init :: md5_words where
  "md5_init = (0x67452301, 0xefcdab89, 0x98badcfe, 0x10325476)"

text \<open>
  The padding of a message of \<open>n\<close> bytes: the byte 0x80, zeros up to 56 modulo 64, and
  the length in bits as a 64-bit word.
\<close>

definition md5_padding :: "nat \<Rightarrow> bytes" where
  "md5_padding n =
     0x80 # replicate ((119 - n mod 64) mod 64) 0 @ le_bytes64 (of_nat (8 * n))"

definition hex_of_bytes :: "bytes \<Rightarrow> string" where
  "hex_of_bytes bs =
     concat (map (\<lambda>b. [hex_digit (unat b div 16), hex_digit (unat b mod 16)]) bs)"

definition md5_output :: "md5_words \<Rightarrow> string" where
  "md5_output h =
     (case h of (a, b, c, d) \<Rightarrow>
        hex_of_bytes (le_bytes32 a @ le_bytes32 b @ le_bytes32 c @ le_bytes32 d))"

text \<open>
  The MD5 of a whole message in one pass, in hexadecimal: the reference that the
  streamed hash is compared with.
\<close>

definition md5_hex :: "bytes \<Rightarrow> string" where
  "md5_hex msg = md5_output (md5_blocks md5_init (msg @ md5_padding (length msg)))"

record md5_obj =
  md5_state :: md5_words
  md5_pending :: bytes
  md5_count :: nat

text \<open>\<^verbatim>\<open>hashlib.md5()\<close>\<close>

definition md5_new :: md5_obj where
  "md5_new = \<lparr>md5_state = md5_init, md5_pending = [], md5_count = 0\<rparr>"

text \<open>\<^verbatim>\<open>m.update(data)\<close>\<close>

definition md5_update :: "md5_obj \<Rightarrow> bytes \<Rightarrow> md5_obj" where
  "md5_update m data =
     (let buf = md5_pending m @ data; n = (length buf div 64) * 64
      in \<lparr>md5_state = md5_blocks (md5_state m) (take n buf),
          md5_pending = drop n buf,
          md5_count = md5_count m + length data\<rparr>)"

text \<open>\<^verbatim>\<open>m.hexdigest()\<close>\<close>

definition md5_hexdigest :: "md5_obj \<Rightarrow> string" where
  "md5_hexdigest m =
     md5_output (md5_blocks (md5_state m) (md5_pending m @ md5_padding (md5_count m)))"

subsection \<open>Files\<close>

text \<open>
  The regular files of the disk, by path. The pipeline is single-threaded and nothing
  else writes, so a file read twice in one call has the same bytes.
\<close>

type_synonym filesystem = "string \<rightharpoonup> bytes"

text \<open>\<^verbatim>\<open>os.path.exists(path)\<close>\<close>

definition path_exists :: "filesystem \<Rightarrow> string \<Rightarrow> bool" where
  "path_exists fs path \<longleftrightarrow> fs path \<noteq> None"

text \<open>The exception of \<^verbatim>\<open>open\<close> and \<^verbatim>\<open>os.path.getsize\<close> on a missing file.\<close>

definition no_such_file :: "string \<Rightarrow> error" where
  "no_such_file path =
     FileNotFoundError (''[Errno 2] No such file or directory: '' @ py_repr_str path)"

definition getsize :: "filesystem \<Rightarrow> string \<Rightarrow> error + int" where
  "getsize fs path =
     (case fs path of None \<Rightarrow> Inl (no_such_file path) | Some content \<Rightarrow> Inr (int (length content)))"

text \<open>\<^verbatim>\<open>os.path.basename\<close> and \<^verbatim>\<open>os.path.dirname\<close> (POSIX)\<close>

definition basename :: "string \<Rightarrow> string" where
  "basename p = rev (takeWhile (\<lambda>c. c \<noteq> CHR ''/'') (rev p))"

definition dirname :: "string \<Rightarrow> string" where
  "dirname p =
     (let head = rev (dropWhile (\<lambda>c. c \<noteq> CHR ''/'') (rev p))
      in if head \<noteq> [] \<and> \<not> list_all (\<lambda>c. c = CHR ''/'') head
         then rev (dropWhile (\<lambda>c. c = CHR ''/'') (rev head))
         else head)"

text \<open>
  \<^verbatim>\<open>f.read(size)\<close> on a file opened in binary mode, as the bytes returned and the
  bytes left: at most \<open>n\<close> bytes for \<open>n\<close> from 0 on, everything that is left for
  \<open>-1\<close>, and \<^verbatim>\<open>ValueError\<close> (read length must be non-negative or -1) below that.
\<close>

definition f_read :: "int \<Rightarrow> bytes \<Rightarrow> error + bytes \<times> bytes" where
  "f_read n rest =
     (if n < - 1 then Inl ValueError
      else if n = - 1 then Inr (rest, [])
      else Inr (take (nat n) rest, drop (nat n) rest))"

text \<open>
  \<^verbatim>\<open>
  for chunk in iter(lambda: f.read(chunk_size), b""):
      md5.update(chunk)
  \<close>
  The loop ends at the first empty chunk, or with the exception of a read.
\<close>

function md5_read_loop :: "int \<Rightarrow> md5_obj \<Rightarrow> bytes \<Rightarrow> error + md5_obj" where
  "md5_read_loop chunk_size m rest =
     (case f_read chunk_size rest of
        Inl e \<Rightarrow> Inl e
      | Inr (chunk, rest') \<Rightarrow>
          if chunk = [] then Inr m
          else md5_read_loop chunk_size (md5_update m chunk) rest')"
  by pat_completeness auto
termination
  by (relation "measure (\<lambda>(chunk_size, m, rest). length rest)")
     (auto simp: f_read_def split: if_splits)

declare md5_read_loop.simps [simp del]

text \<open>
  \<^verbatim>\<open>
  def _md5(path, chunk_size = 1 << 20):
      md5 = hashlib.md5()
      with open(path, "rb") as f:
          for chunk in iter(lambda: f.read(chunk_size), b""):
              md5.update(chunk)
      return md5.hexdigest()
  \<close>
  (The name loses its underscore: an Isabelle name starts with a letter.)
\<close>

definition md5 :: "filesystem \<Rightarrow> string \<Rightarrow> int \<Rightarrow> error + string" where
  "md5 fs path chunk_size =
     (case fs path of
        None \<Rightarrow> Inl (no_such_file path)
      | Some content \<Rightarrow>
          (case md5_read_loop chunk_size md5_new content of
             Inl e \<Rightarrow> Inl e
           | Inr m \<Rightarrow> Inr (md5_hexdigest m)))"

definition default_chunk_size :: int where
  "default_chunk_size = push_bit 20 1"

text \<open>
  The next line of a file opened in binary mode, and the bytes after it: a line ends
  with its newline byte, the last line may have none.
\<close>

fun readline :: "bytes \<Rightarrow> bytes \<times> bytes" where
  "readline [] = ([], [])"
| "readline (b # bs) =
     (if b = 0x0A then ([b], bs) else (case readline bs of (line, rest) \<Rightarrow> (b # line, rest)))"

text \<open>
  \<^verbatim>\<open>
  for _ in f:
      count += 1
  \<close>
  Iteration over a binary file reads lines until there is none.
\<close>

function count_lines_loop :: "bytes \<Rightarrow> int \<Rightarrow> int" where
  "count_lines_loop rest count =
     (case readline rest of
        (line, rest') \<Rightarrow> if line = [] then count else count_lines_loop rest' (count + 1))"
  by pat_completeness auto
termination
proof (relation "measure (\<lambda>(rest, count). length rest)")
  show "wf (measure (\<lambda>(rest, count). length rest))"
    by simp
next
  fix rest :: bytes and count :: int and line rest'
  assume rl: "(line, rest') = readline rest" and ne: "line \<noteq> []"
  have len: "length (fst (readline bs)) + length (snd (readline bs)) = length bs" for bs
    by (induction bs) (auto split: prod.splits)
  from rl have "readline rest = (line, rest')"
    by simp
  with len [of rest] ne have "length rest' < length rest"
    by (cases line) auto
  then show "((rest', count + 1), (rest, count)) \<in> measure (\<lambda>(rest, count). length rest)"
    by simp
qed

declare count_lines_loop.simps [simp del]

text \<open>
  \<^verbatim>\<open>
  def _count_file_lines(path):
      count = 0
      with open(path, "rb") as f:
          for _ in f:
              count += 1
      return count
  \<close>
\<close>

definition count_file_lines :: "filesystem \<Rightarrow> string \<Rightarrow> error + int" where
  "count_file_lines fs path =
     (case fs path of
        None \<Rightarrow> Inl (no_such_file path)
      | Some content \<Rightarrow> Inr (count_lines_loop content 0))"

subsection \<open>metadata.py: the manifest\<close>

record CoreInfo =
  arquivo :: string
  diretorio :: string
  tamanho_bytes :: int
  hash_md5 :: string
  gerado_em :: string

record DatasetInfo =
  dataset :: "string option"
  origem :: "string option"
  endpoint :: "string option"
  delimitador :: "string option"
  encoding :: "string option"
  partition_key :: "string option"
  partition_value :: "string option"
  run_id :: "string option"
  producer :: "string option"

record SchemaStats =
  colunas :: "string list"
  dtypes :: "(string \<times> string) list option"
  linhas :: "int option"
  nulos :: "(string \<times> int) list option"
  preview :: "(string \<times> cell) list list option"

text \<open>
  The dictionary that is written: the keys \<^verbatim>\<open>core\<close>, \<^verbatim>\<open>dataset\<close> and
  \<^verbatim>\<open>schema_stats\<close>, and the key \<^verbatim>\<open>extra\<close> when there is one.
\<close>

record Manifest =
  m_core :: CoreInfo
  m_dataset :: DatasetInfo
  m_schema_stats :: SchemaStats
  m_extra :: "(string \<times> cell) list option"

text \<open>
  What the functions take from their surroundings: whether the import of pandas at the top
  of the module succeeded (\<^verbatim>\<open>pd is not None\<close>), the result of \<^verbatim>\<open>_now_iso()\<close>, the
  bytes that \<^verbatim>\<open>json.dump\<close> writes for a manifest, and the first line that
  \<^verbatim>\<open>readline\<close> returns for a file opened as text with an encoding (\<open>None\<close> when
  that raises).
\<close>

record env =
  pandas_loaded :: bool
  now_iso :: string
  json_dump :: "Manifest \<Rightarrow> bytes"
  read_first_line :: "string \<Rightarrow> bytes \<Rightarrow> string option"

text \<open>The values of a column as Python objects, and \<^verbatim>\<open>isna\<close>.\<close>

fun col_cells :: "column \<Rightarrow> cell list" where
  "col_cells (ObjectCol cs) = cs"
| "col_cells (NumericCol (Int64Col xs)) = map PyInt xs"
| "col_cells (NumericCol (Float64Col fs)) = map PyFloat fs"
| "col_cells (NumericCol (NullableInt64Col xs)) =
     map (\<lambda>x. case x of None \<Rightarrow> PyNA | Some i \<Rightarrow> PyInt i) xs"

fun cell_isna :: "cell \<Rightarrow> bool" where
  "cell_isna (PyFloat NaN) = True"
| "cell_isna PyNone = True"
| "cell_isna PyNA = True"
| "cell_isna c = False"

text \<open>\<^verbatim>\<open>len(df)\<close>: the length of the columns.\<close>

definition nrows :: "dataframe \<Rightarrow> int" where
  "nrows df = (case df of [] \<Rightarrow> 0 | (c, series) # rest \<Rightarrow> int (length (col_cells series)))"

text \<open>\<^verbatim>\<open>{c: str(df[c].dtype) for c in df.columns}\<close>\<close>

definition pandas_dtypes :: "dataframe \<Rightarrow> (string \<times> string) list" where
  "pandas_dtypes df = map (\<lambda>(c, series). (c, dtype_str (dtype_of series))) df"

text \<open>\<^verbatim>\<open>{c: int(df[c].isna().sum()) for c in df.columns}\<close>\<close>

definition null_counts :: "dataframe \<Rightarrow> (string \<times> int) list" where
  "null_counts df =
     map (\<lambda>(c, series). (c, int (length (filter cell_isna (col_cells series))))) df"

text \<open>\<^verbatim>\<open>df.head(n).to_dict(orient="records")\<close>: the first rows, each as a dictionary.\<close>

fun head_rows :: "nat \<Rightarrow> (string \<times> cell list) list \<Rightarrow> (string \<times> cell) list list" where
  "head_rows 0 cols = []"
| "head_rows (Suc n) cols =
     (if cols = [] \<or> list_ex (\<lambda>(c, vs). vs = []) cols then []
      else map (\<lambda>(c, vs). (c, hd vs)) cols # head_rows n (map (\<lambda>(c, vs). (c, tl vs)) cols))"

definition head_preview :: "dataframe \<Rightarrow> nat \<Rightarrow> (string \<times> cell) list list" where
  "head_preview df n = head_rows n (map (\<lambda>(c, series). (c, col_cells series)) df)"

text \<open>\<^verbatim>\<open>if extra: manifest["extra"] = extra\<close>\<close>

definition extra_entry :: "(string \<times> cell) list option \<Rightarrow> (string \<times> cell) list option" where
  "extra_entry extra = (case extra of None \<Rightarrow> None | Some d \<Rightarrow> if d \<noteq> [] then Some d else None)"

text \<open>
  The messages of the two exceptions raised by metadata.py itself; the letters with
  accents are the code points 0xE3, 0xE9 and 0xE1.
\<close>

definition not_found :: "string \<Rightarrow> error" where
  "not_found path =
     FileNotFoundError (''Arquivo n'' @ [CHR 0xE3] @ ''o encontrado para manifest: '' @ path)"

definition pandas_needed :: error where
  "pandas_needed =
     RuntimeError (''pandas '' @ [CHR 0xE9] @ '' necess'' @ [CHR 0xE1]
                     @ ''rio para write_manifest_from_df'')"

text \<open>
  \<^verbatim>\<open>write_metadata_from_df(df, path, *, dataset=None, ..., producer=None,
  include_dtypes=True, include_nulls=True, include_preview=False, extra=None)\<close>.
  The nine keyword arguments that go unchanged into \<^verbatim>\<open>DatasetInfo\<close> are passed as
  the record \<open>meta\<close>.
  \<^verbatim>\<open>
  if pd is None:
      raise RuntimeError(...)
  if not os.path.exists(path):
      raise FileNotFoundError(...)
  core = CoreInfo(arquivo=os.path.basename(path), diretorio=os.path.dirname(path),
                  tamanho_bytes=os.path.getsize(path), hash_md5=_md5(path),
                  gerado_em=_now_iso())
  stats = SchemaStats(colunas=[str(c) for c in df.columns],
                      dtypes=_pandas_dtypes(df) if include_dtypes else None,
                      linhas=int(len(df)),
                      nulos=_null_counts(df) if include_nulls else None,
                      preview=_head_preview(df, 3) if include_preview else None)
  meta = DatasetInfo(...)
  manifest = {"core": ..., "dataset": ..., "schema_stats": ...}
  if extra:
      manifest["extra"] = extra
  out = path + ".manifest.json"
  with open(out, "w", encoding="utf-8") as f:
      json.dump(manifest, f, ensure_ascii=False, indent=2)
  return out
  \<close>
  The model has two parts: \<open>manifest_from_df\<close> is the function up to the dictionary
  \<^verbatim>\<open>manifest\<close>, with its two exceptions, and \<open>write_metadata_from_df\<close> writes
  that dictionary. The result of the latter is the disk after the call and the exception
  or the path of the manifest.
\<close>

definition manifest_from_df ::
  "env \<Rightarrow> filesystem \<Rightarrow> dataframe \<Rightarrow> string \<Rightarrow> DatasetInfo \<Rightarrow> bool \<Rightarrow> bool \<Rightarrow> bool
     \<Rightarrow> (string \<times> cell) list option \<Rightarrow> error + Manifest" where
  "manifest_from_df E fs df path meta include_dtypes include_nulls include_preview extra =
     (if \<not> pandas_loaded E then Inl pandas_needed
      else if \<not> path_exists fs path then Inl (not_found path)
      else
        (case getsize fs path of
           Inl e \<Rightarrow> Inl e
         | Inr sz \<Rightarrow>
             (case md5 fs path default_chunk_size of
                Inl e \<Rightarrow> Inl e
              | Inr h \<Rightarrow>
                  (let core = \<lparr>arquivo = basename path, diretorio = dirname path,
                               tamanho_bytes = sz, hash_md5 = h, gerado_em = now_iso E\<rparr>;
                       stats = \<lparr>colunas = columns df,
                                dtypes = (if include_dtypes then Some (pandas_dtypes df) else None),
                                linhas = Some (nrows df),
                                nulos = (if include_nulls then Some (null_counts df) else None),
                                preview = (if include_preview then Some (head_preview df 3)
                                           else None)\<rparr>
                   in Inr \<lparr>m_core = core, m_dataset = meta, m_schema_stats = stats,
                           m_extra = extra_entry extra\<rparr>))))"

definition write_metadata_from_df ::
  "env \<Rightarrow> filesystem \<Rightarrow> dataframe \<Rightarrow> string \<Rightarrow> DatasetInfo \<Rightarrow> bool \<Rightarrow> bool \<Rightarrow> bool
     \<Rightarrow> (string \<times> cell) list option \<Rightarrow> filesystem \<times> (error + string)" where
  "write_metadata_from_df E fs df path meta include_dtypes include_nulls include_preview extra =
     (case manifest_from_df E fs df path meta include_dtypes include_nulls include_preview
             extra of
        Inl e \<Rightarrow> (fs, Inl e)
      | Inr manifest \<Rightarrow>
          (let out = path @ ''.manifest.json''
           in (fs(out \<mapsto> json_dump E manifest), Inr out)))"

text \<open>
  The column names read from the first line:
  \<^verbatim>\<open>
  try:
      with open(path, "r", encoding=encoding or "utf-8") as f:
          first = f.readline().strip("\n\r")
          cols = [c.strip() for c in first.split(delimitador)]
  except Exception:
      cols = []
  \<close>
\<close>

definition header_columns ::
  "env \<Rightarrow> filesystem \<Rightarrow> string \<Rightarrow> string option \<Rightarrow> string \<Rightarrow> string list" where
  "header_columns E fs path enc delim =
     (case fs path of
        None \<Rightarrow> []
      | Some content \<Rightarrow>
          (case read_first_line E (case enc of None \<Rightarrow> ''utf-8''
                                   | Some e \<Rightarrow> if e \<noteq> [] then e else ''utf-8'') content of
             None \<Rightarrow> []
           | Some line \<Rightarrow>
               map py_strip (py_split delim (py_strip_chars [CHR 0x0A, CHR 0x0D] line))))"

text \<open>
  \<^verbatim>\<open>write_manifest_from_file(path, *, dataset=None, ..., producer=None, header=True,
  infer_columns_from_header=True, line_count=True, extra=None)\<close>
  \<^verbatim>\<open>
  if not os.path.exists(path):
      raise FileNotFoundError(...)
  core = CoreInfo(...)
  cols = []
  rows = None
  if infer_columns_from_header and header and delimitador:
      ... cols from the first line ...
  if line_count:
      rows = _count_file_lines(path)
      if header and rows and rows > 0:
          rows = rows - 1
  stats = SchemaStats(colunas=cols, dtypes=None, linhas=rows, nulos=None, preview=None)
  ... as in write_metadata_from_df ...
  \<close>
  Again \<open>manifest_from_file\<close> is the function up to the dictionary and
  \<open>write_manifest_from_file\<close> writes it.
\<close>

definition manifest_from_file ::
  "env \<Rightarrow> filesystem \<Rightarrow> string \<Rightarrow> DatasetInfo \<Rightarrow> bool \<Rightarrow> bool \<Rightarrow> bool
     \<Rightarrow> (string \<times> cell) list option \<Rightarrow> error + Manifest" where
  "manifest_from_file E fs path meta header infer_columns_from_header line_count extra =
     (if \<not> path_exists fs path then Inl (not_found path)
      else
        (case getsize fs path of
           Inl e \<Rightarrow> Inl e
         | Inr sz \<Rightarrow>
             (case md5 fs path default_chunk_size of
                Inl e \<Rightarrow> Inl e
              | Inr h \<Rightarrow>
                  (let core = \<lparr>arquivo = basename path, diretorio = dirname path,
                               tamanho_bytes = sz, hash_md5 = h, gerado_em = now_iso E\<rparr>;
                       cols = (case delimitador meta of
                                 None \<Rightarrow> []
                               | Some delim \<Rightarrow>
                                   if infer_columns_from_header \<and> header \<and> delim \<noteq> []
                                   then header_columns E fs path (encoding meta) delim
                                   else [])
                   in case (if line_count
                            then (case count_file_lines fs path of
                                    Inl e \<Rightarrow> Inl e
                                  | Inr rows \<Rightarrow>
                                      Inr (Some (if header \<and> rows \<noteq> 0 \<and> rows > 0
                                                 then rows - 1 else rows)))
                            else Inr None) of
                        Inl e \<Rightarrow> Inl e
                      | Inr rows \<Rightarrow>
                          Inr \<lparr>m_core = core, m_dataset = meta,
                               m_schema_stats = \<lparr>colunas = cols, dtypes = None, linhas = rows,
                                                 nulos = None, preview = None\<rparr>,
                               m_extra = extra_entry extra\<rparr>))))"

definition write_manifest_from_file ::
  "env \<Rightarrow> filesystem \<Rightarrow> string \<Rightarrow> DatasetInfo \<Rightarrow> bool \<Rightarrow> bool \<Rightarrow> bool
     \<Rightarrow> (string \<times> cell) list option \<Rightarrow> filesystem \<times> (error + string)" where
  "write_manifest_from_file E fs path meta header infer_columns_from_header line_count extra =
     (case manifest_from_file E fs path meta header infer_columns_from_header line_count
             extra of
        Inl e \<Rightarrow> (fs, Inl e)
      | Inr manifest \<Rightarrow>
          (let out = path @ ''.manifest.json''
           in (fs(out \<mapsto> json_dump E manifest), Inr out)))"

subsection \<open>Reference definitions and sample inputs\<close>

text \<open>
  The number of lines of a file by counting newline bytes: one line for every newline,
  and one more for the bytes after the last newline, if there are any.
\<close>

definition newline_lines :: "bytes \<Rightarrow> int" where
  "newline_lines bs =
     int (length (filter (\<lambda>b. b = 0x0A) bs)) + (if bs \<noteq> [] \<and> last bs \<noteq> 0x0A then 1 else 0)"

text \<open>
  String cleaning as the specification words it: strip the whitespace at both ends, then
  drop one double quote at the front if there is one, and one at the back if there is one.
\<close>

definition strip_one_quote_each_side :: "string \<Rightarrow> string" where
  "strip_one_quote_each_side s =
     (let t = (case s of [] \<Rightarrow> [] | c # cs \<Rightarrow> if c = CHR 0x22 then cs else s)
      in if t \<noteq> [] \<and> last t = CHR 0x22 then butlast t else t)"

text \<open>
  The text that the float cast hands to the parser, as the specification words it: every
  dot removed, then every comma turned into a dot.
\<close>

definition locale_decimal_text :: "string \<Rightarrow> string" where
  "locale_decimal_text s =
     map (\<lambda>c. if c = CHR '','' then CHR ''.'' else c) (filter (\<lambda>c. c \<noteq> CHR ''.'') s)"

text \<open>A parsed value as a float, NaN for a text that is not a number.\<close>

definition parsed_float :: "pandas_lib \<Rightarrow> string \<Rightarrow> float64" where
  "parsed_float L s = (case parse_number L s of None \<Rightarrow> NaN | Some n \<Rightarrow> num_float n)"

text \<open>Sample surroundings and a sample description of the dataset.\<close>

definition sample_meta :: DatasetInfo where
  "sample_meta =
     \<lparr>dataset = Some ''ibc'', origem = Some ''csv'', endpoint = None,
      delimitador = Some '';'', encoding = Some ''utf-8'', partition_key = Some ''anomesdia'',
      partition_value = None, run_id = None, producer = None\<rparr>"

definition sample_env :: env where
  "sample_env =
     \<lparr>pandas_loaded = True, now_iso = ''2025-10-20T10:00:00'',
      json_dump = (\<lambda>m. []), read_first_line = (\<lambda>enc content. None)\<rparr>"

text \<open>The same surroundings when the import of pandas has failed.\<close>

definition sample_env_no_pandas :: env where
  "sample_env_no_pandas = sample_env\<lparr>pandas_loaded := False\<rparr>"

text \<open>A sample file with the two lines \<^verbatim>\<open>a;b\<close> and \<^verbatim>\<open>1;2\<close>, the last without a newline.\<close>

definition sample_path :: string where
  "sample_path = ''bronze/ibc/anomesdia=20251020/data.txt''"

definition sample_content :: bytes where
  "sample_content = [0x61, 0x3B, 0x62, 0x0A, 0x31, 0x3B, 0x32]"

definition sample_fs :: filesystem where
  "sample_fs = Map.empty(sample_path \<mapsto> sample_content)"

text \<open>A disk where the sample file has no bytes.\<close>

definition empty_file_fs :: filesystem where
  "empty_file_fs = Map.empty(sample_path \<mapsto> [])"

text \<open>The exceptions that are a not-found error.\<close>

fun is_not_found :: "error \<Rightarrow> bool" where
  "is_not_found (FileNotFoundError msg) = True"
| "is_not_found e = False"

text \<open>
  A type mismatch as the specification words it: the column is declared in one of the
  three lists, it is present in the dataset, and its type after the casts is not the
  type of that list (\<^verbatim>\<open>Int64\<close> for an integer field, \<^verbatim>\<open>object\<close> for a string field,
  \<^verbatim>\<open>float64\<close> for a float field); \<open>expected\<close> and \<open>actual\<close> are the two names in
  the message.
\<close>

definition mismatch ::
  "dataframe \<Rightarrow> string list \<Rightarrow> string list \<Rightarrow> string list \<Rightarrow> string \<Rightarrow> string \<Rightarrow> string \<Rightarrow> bool"
  where
  "mismatch df integer_fields string_fields float_fields col expected actual \<longleftrightarrow>
     (case map_of df col of
        None \<Rightarrow> False
      | Some series \<Rightarrow>
          actual = dtype_str (dtype_of series)
          \<and> (col \<in> set integer_fields \<and> dtype_of series \<noteq> Dt_Int64 \<and> expected = ''Int64''
             \<or> col \<in> set string_fields \<and> dtype_of series \<noteq> Dt_object
                \<and> expected = ''string(object)''
             \<or> col \<in> set float_fields \<and> dtype_of series \<noteq> Dt_float64
                \<and> expected = ''float''))"

text \<open>Sample datasets: one with the columns \<^verbatim>\<open>a\<close> and \<^verbatim>\<open>c\<close>, and one before any cast.\<close>

definition sample_df :: dataframe where
  "sample_df =
     [(''a'', ObjectCol [PyStr ''1'', PyStr ''2'']),
      (''c'', NumericCol (Float64Col [Fin 1, NaN]))]"

definition mistyped_df :: dataframe where
  "mistyped_df =
     [(''id'', ObjectCol [PyStr ''1'']),
      (''nome'', NumericCol (Int64Col [7])),
      (''valor'', ObjectCol [PyStr ''1,5'']),
      (''uf'', ObjectCol [PyStr ''SP''])]"

text \<open>
  A sample store: the reference 0 holds a dataset as read from a CSV file, every other
  reference an empty dataset; \<open>cast_df\<close> is that dataset after its casts.
\<close>

definition quoted_df :: dataframe where
  "quoted_df =
     [(''id'', ObjectCol [PyStr ''12'']),
      (''nome'', ObjectCol [PyStr (''  '' @ [CHR 0x22] @ ''abc'' @ [CHR 0x22] @ ''  '')]),
      (''valor'', ObjectCol [PyStr ''1.234,56'']),
      (''uf'', ObjectCol [PyStr ''SP''])]"

definition sample_store :: store where
  "sample_store = (\<lambda>r. if r = 0 then quoted_df else [])"

definition cast_df :: dataframe where
  "cast_df =
     [(''id'', NumericCol (NullableInt64Col [Some 12])),
      (''nome'', ObjectCol [PyStr ''abc'']),
      (''valor'', NumericCol (Float64Col [Fin (123456 / 100)])),
      (''uf'', ObjectCol [PyStr ''SP''])]"

section \<open>Properties\<close>

subsection \<open>Counting lines\<close>

lemma readline_newline_lines:
  "bs \<noteq> [] \<Longrightarrow> newline_lines bs = 1 + newline_lines (snd (readline bs))"
  by (induction bs) (auto simp: newline_lines_def split: prod.splits)

lemma readline_empty: "fst (readline bs) = [] \<longleftrightarrow> bs = []"
  by (cases bs) (auto split: prod.splits)

lemma count_lines_loop_eq: "count_lines_loop rest c = c + newline_lines rest"
proof (induction rest c rule: count_lines_loop.induct)
  case (1 rest c)
  obtain line rest' where rl: "readline rest = (line, rest')"
    by (cases "readline rest")
  show ?case
  proof (cases "line = []")
    case True
    with rl readline_empty [of rest] have "rest = []"
      by simp
    with rl True show ?thesis
      by (subst count_lines_loop.simps) (simp add: newline_lines_def)
  next
    case False
    with rl readline_empty [of rest] have ne: "rest \<noteq> []"
      by auto
    from "1.IH" [OF rl [symmetric] False]
    have "count_lines_loop rest' (c + 1) = c + 1 + newline_lines rest'" .
    with rl False readline_newline_lines [OF ne] show ?thesis
      by (subst count_lines_loop.simps) simp
  qed
qed

subsection \<open>Streaming MD5\<close>

lemma md5_blocks_Nil: "md5_blocks h [] = h"
  by (subst md5_blocks.simps) simp

lemma md5_blocks_append:
  "64 dvd length p \<Longrightarrow> md5_blocks h (p @ q) = md5_blocks (md5_blocks h p) q"
proof (induction h p rule: md5_blocks.induct)
  case (1 h bs)
  show ?case
  proof (cases "length bs < 64")
    case True
    with "1.prems" have "bs = []"
      by (auto dest: dvd_imp_le)
    then show ?thesis
      by (simp add: md5_blocks_Nil)
  next
    case False
    then have len: "64 \<le> length bs"
      by simp
    from "1.prems" len have "64 dvd length (drop 64 bs)"
      by (simp add: dvd_diff_nat)
    from "1.IH" [OF False this]
    have IH: "md5_blocks (md5_compress h (take 64 bs)) (drop 64 bs @ q)
              = md5_blocks (md5_blocks (md5_compress h (take 64 bs)) (drop 64 bs)) q" .
    have "md5_blocks h (bs @ q)
          = md5_blocks (md5_compress h (take 64 (bs @ q))) (drop 64 (bs @ q))"
      using len by (subst md5_blocks.simps) simp
    also have "\<dots> = md5_blocks (md5_compress h (take 64 bs)) (drop 64 bs @ q)"
      using len by simp
    also note IH
    also have "md5_blocks (md5_compress h (take 64 bs)) (drop 64 bs) = md5_blocks h bs"
      using False by (subst (2) md5_blocks.simps) simp
    finally show ?thesis .
  qed
qed


lemma md5_update_inv:
  assumes "msg = p @ md5_pending m" and "64 dvd length p"
    and "md5_state m = md5_blocks md5_init p" and "md5_count m = length msg"
  shows "\<exists>p'. msg @ data = p' @ md5_pending (md5_update m data) \<and> 64 dvd length p'
            \<and> md5_state (md5_update m data) = md5_blocks md5_init p'
            \<and> md5_count (md5_update m data) = length (msg @ data)"
proof -
  define buf where "buf = md5_pending m @ data"
  define n where "n = (length buf div 64) * 64"
  have n_le: "n \<le> length buf"
    by (simp add: n_def)
  have pending: "md5_pending (md5_update m data) = drop n buf"
    and state: "md5_state (md5_update m data) = md5_blocks (md5_state m) (take n buf)"
    and count: "md5_count (md5_update m data) = md5_count m + length data"
    by (simp_all add: md5_update_def buf_def n_def Let_def)
  have dvd: "64 dvd length (p @ take n buf)"
    using assms(2) n_le by (simp add: n_def min_absorb2)
  have "msg @ data = p @ buf"
    using assms(1) by (simp add: buf_def)
  also have "buf = take n buf @ drop n buf"
    by simp
  finally have msg: "msg @ data = (p @ take n buf) @ md5_pending (md5_update m data)"
    by (simp add: pending)
  have st: "md5_state (md5_update m data) = md5_blocks md5_init (p @ take n buf)"
    using assms(2,3) by (simp add: state md5_blocks_append)
  have cnt: "md5_count (md5_update m data) = length (msg @ data)"
    using assms(4) by (simp add: count)
  from msg dvd st cnt show ?thesis
    by blast
qed

lemma md5_hexdigest_inv:
  assumes "msg = p @ md5_pending m" and "64 dvd length p"
    and "md5_state m = md5_blocks md5_init p" and "md5_count m = length msg"
  shows "md5_hexdigest m = md5_hex msg"
  using assms by (simp add: md5_hexdigest_def md5_hex_def md5_blocks_append)

lemma f_read_chunk:
  "0 < n \<or> n = - 1 \<Longrightarrow>
   \<exists>chunk rest'. f_read n rest = Inr (chunk, rest') \<and> chunk @ rest' = rest
                  \<and> (chunk = [] \<longleftrightarrow> rest = [])"
  by (auto simp: f_read_def)

lemma md5_read_loop_inv:
  "0 < chunk_size \<or> chunk_size = - 1 \<Longrightarrow>
   \<exists>p. msg = p @ md5_pending m \<and> 64 dvd length p
       \<and> md5_state m = md5_blocks md5_init p \<and> md5_count m = length msg \<Longrightarrow>
   \<exists>m'. md5_read_loop chunk_size m rest = Inr m' \<and> md5_hexdigest m' = md5_hex (msg @ rest)"
proof (induction chunk_size m rest arbitrary: msg rule: md5_read_loop.induct)
  case (1 chunk_size m rest)
  from f_read_chunk [OF "1.prems"(1), of rest] obtain chunk rest' where
    rd: "f_read chunk_size rest = Inr (chunk, rest')" and split: "chunk @ rest' = rest"
    and empty: "chunk = [] \<longleftrightarrow> rest = []"
    by blast
  from "1.prems"(2) obtain p where inv: "msg = p @ md5_pending m" "64 dvd length p"
      "md5_state m = md5_blocks md5_init p" "md5_count m = length msg"
    by blast
  show ?case
  proof (cases "chunk = []")
    case True
    with empty have "rest = []"
      by simp
    with rd True inv show ?thesis
      by (subst md5_read_loop.simps) (simp add: md5_hexdigest_inv)
  next
    case False
    from md5_update_inv [OF inv, of chunk]
    have "\<exists>m'. md5_read_loop chunk_size (md5_update m chunk) rest' = Inr m'
               \<and> md5_hexdigest m' = md5_hex ((msg @ chunk) @ rest')"
      by (intro "1.IH" [OF rd refl False "1.prems"(1)])
    with rd False split show ?thesis
      by (subst md5_read_loop.simps) simp
  qed
qed

lemma md5_read_loop_whole:
  "0 < chunk_size \<or> chunk_size = - 1 \<Longrightarrow>
   \<exists>m'. md5_read_loop chunk_size md5_new content = Inr m'
        \<and> md5_hexdigest m' = md5_hex content"
  using md5_read_loop_inv [of chunk_size "[]" md5_new content]
  by (simp add: md5_new_def md5_blocks_Nil)

lemma md5_file:
  "fs path = Some content \<Longrightarrow> 0 < chunk_size \<or> chunk_size = - 1 \<Longrightarrow>
   md5 fs path chunk_size = Inr (md5_hex content)"
  using md5_read_loop_whole [of chunk_size content] by (auto simp: md5_def)

lemma md5_default: "fs path = Some content \<Longrightarrow>
  md5 fs path default_chunk_size = Inr (md5_hex content)"
  by (rule md5_file) (simp_all add: default_chunk_size_def)

text \<open>
  With a chunk size of 0 the first read is empty and nothing is hashed; with one below
  \<open>-1\<close> the first read raises.
\<close>

lemma md5_chunk_size_zero:
  "fs path = Some content \<Longrightarrow> md5 fs path 0 = Inr (md5_hex [])"
  using md5_hexdigest_inv [of "[]" "[]" md5_new]
  by (simp add: md5_def md5_read_loop.simps f_read_def md5_new_def md5_blocks_Nil)

lemma md5_chunk_size_below_minus_one:
  "fs path = Some content \<Longrightarrow> chunk_size < - 1 \<Longrightarrow> md5 fs path chunk_size = Inl ValueError"
  by (simp add: md5_def md5_read_loop.simps f_read_def)

lemma count_file_lines_eq: "fs path = Some content \<Longrightarrow>
  count_file_lines fs path = Inr (newline_lines content)"
  by (simp add: count_file_lines_def count_lines_loop_eq)

subsection \<open>The manifest of an existing file\<close>

lemma manifest_from_file_existing:
  assumes "fs path = Some content"
  shows "manifest_from_file E fs path meta header infer lc extra =
    Inr \<lparr>m_core = \<lparr>arquivo = basename path, diretorio = dirname path,
                   tamanho_bytes = int (length content), hash_md5 = md5_hex content,
                   gerado_em = now_iso E\<rparr>,
         m_dataset = meta,
         m_schema_stats =
           \<lparr>colunas = (case delimitador meta of
                         None \<Rightarrow> []
                       | Some delim \<Rightarrow>
                           if infer \<and> header \<and> delim \<noteq> []
                           then header_columns E fs path (encoding meta) delim else []),
            dtypes = None,
            linhas = (if lc then Some (if header \<and> 0 < newline_lines content
                                       then newline_lines content - 1
                                       else newline_lines content)
                      else None),
            nulos = None, preview = None\<rparr>,
         m_extra = extra_entry extra\<rparr>"
  using assms
  by (simp add: manifest_from_file_def path_exists_def getsize_def md5_default
      count_file_lines_eq)


lemma write_manifest_from_file_Inr:
  "manifest_from_file E fs path meta header infer lc extra = Inr m \<Longrightarrow>
   write_manifest_from_file E fs path meta header infer lc extra =
     (fs(path @ ''.manifest.json'' \<mapsto> json_dump E m), Inr (path @ ''.manifest.json''))"
  by (simp add: write_manifest_from_file_def Let_def)




lemma manifest_from_file_missing:
  "fs path = None \<Longrightarrow>
   manifest_from_file E fs path meta header infer lc extra = Inl (not_found path)"
  by (simp add: manifest_from_file_def path_exists_def)

lemma manifest_from_df_missing:
  "fs path = None \<Longrightarrow>
   manifest_from_df E fs df path meta a b c extra
     = Inl (if pandas_loaded E then not_found path else pandas_needed)"
  by (simp add: manifest_from_df_def path_exists_def)

text \<open>
  \<^bold>\<open>C7\<close>, as stated: for every path that does not exist on disk, both entry points fail
  with a not-found error and write nothing. When the import of pandas has failed,
  \<^verbatim>\<open>write_metadata_from_df\<close> raises \<^verbatim>\<open>RuntimeError\<close> before it looks at the path.
\<close>

theorem not_found_counterexample:
  "Map.empty sample_path = (None :: bytes option)
   \<and> write_metadata_from_df sample_env_no_pandas Map.empty [] sample_path sample_meta
         True True False None
       = (Map.empty, Inl pandas_needed)
   \<and> \<not> is_not_found pandas_needed"
  by (simp add: write_metadata_from_df_def manifest_from_df_def sample_env_no_pandas_def
      sample_env_def pandas_needed_def)

text \<open>
  \<^bold>\<open>C7\<close>, amended: for every path that does not exist on disk, both entry points fail
  and leave the disk as it was; \<^verbatim>\<open>write_manifest_from_file\<close> fails with the not-found
  error, and \<^verbatim>\<open>write_metadata_from_df\<close> fails with the not-found error when pandas is
  loaded and with \<^verbatim>\<open>RuntimeError\<close> when it is not.
\<close>

theorem missing_file_writes_nothing:
  assumes "fs path = None"
  shows "write_manifest_from_file E fs path meta header infer lc extra
           = (fs, Inl (not_found path))
    \<and> is_not_found (not_found path)
    \<and> write_metadata_from_df E fs df path meta incl_dtypes incl_nulls incl_preview extra
           = (fs, Inl (if pandas_loaded E then not_found path else pandas_needed))"
  using assms
  by (simp add: write_manifest_from_file_def write_metadata_from_df_def
      manifest_from_file_missing manifest_from_df_missing not_found_def)

theorem missing_file_writes_nothing_witness:
  "sample_fs ''bronze/other.txt'' = None
   \<and> write_manifest_from_file sample_env sample_fs ''bronze/other.txt'' sample_meta
        True True True None
       = (sample_fs, Inl (not_found ''bronze/other.txt''))
   \<and> write_metadata_from_df sample_env sample_fs [] ''bronze/other.txt'' sample_meta
        True True False None
       = (sample_fs, Inl (not_found ''bronze/other.txt''))"
proof -
  have f: "sample_fs ''bronze/other.txt'' = None"
    by (simp add: sample_fs_def sample_path_def)
  have p: "pandas_loaded sample_env"
    by (simp add: sample_env_def)
  from missing_file_writes_nothing [where fs = sample_fs and path = "''bronze/other.txt''",
      OF f, of sample_env sample_meta True True True None "[]" True True False] f p
  show ?thesis
    by simp
qed

lemma newline_lines_positive: "0 < newline_lines content \<longleftrightarrow> content \<noteq> []"
proof (cases "content = []")
  case True
  then show ?thesis
    by (simp add: newline_lines_def)
next
  case False
  show ?thesis
  proof (cases "last content = 0x0A")
    case True
    with False last_in_set [of content]
    have "last content \<in> set (filter (\<lambda>b. b = 0x0A) content)"
      by simp
    then have "filter (\<lambda>b. b = 0x0A) content \<noteq> []"
      by (metis empty_iff empty_set)
    with False show ?thesis
      by (simp add: newline_lines_def)
  next
    case False
    with \<open>content \<noteq> []\<close> show ?thesis
      by (simp add: newline_lines_def)
  qed
qed

text \<open>
  \<^bold>\<open>C9.\<close> For every existing file, \<^verbatim>\<open>write_manifest_from_file\<close> with line counting on
  reports in \<^verbatim>\<open>schema_stats.linhas\<close> the number of lines found by streaming the file
  and counting newline bytes, decremented by one when a header line is present, that is
  when \<^verbatim>\<open>header=True\<close> and the file has a line; this holds for arbitrary file contents,
  a last line without a newline being counted as a line.
\<close>

theorem line_count_of_manifest:
  assumes "fs path = Some content"
  shows "\<exists>m. manifest_from_file E fs path meta header infer True extra = Inr m
    \<and> write_manifest_from_file E fs path meta header infer True extra
        = (fs(path @ ''.manifest.json'' \<mapsto> json_dump E m), Inr (path @ ''.manifest.json''))
    \<and> count_file_lines fs path = Inr (newline_lines content)
    \<and> linhas (m_schema_stats m)
        = Some (newline_lines content - (if header \<and> content \<noteq> [] then 1 else 0))"
  using manifest_from_file_existing [where fs = fs and path = path, OF assms,
      of E meta header infer True extra] assms
  by (simp add: write_manifest_from_file_Inr count_file_lines_eq newline_lines_positive)

theorem line_count_of_manifest_witness:
  "sample_fs sample_path = Some sample_content
   \<and> newline_lines sample_content = 2
   \<and> (\<exists>m. manifest_from_file sample_env sample_fs sample_path sample_meta True True True None
             = Inr m
          \<and> linhas (m_schema_stats m) = Some 1)
   \<and> (\<exists>m. manifest_from_file sample_env sample_fs sample_path sample_meta False True True None
             = Inr m
          \<and> linhas (m_schema_stats m) = Some 2)
   \<and> empty_file_fs sample_path = Some []
   \<and> (\<exists>m. manifest_from_file sample_env empty_file_fs sample_path sample_meta True True True
             None = Inr m
          \<and> linhas (m_schema_stats m) = Some (newline_lines []))"
proof -
  have f: "sample_fs sample_path = Some sample_content"
    by (simp add: sample_fs_def)
  have g: "empty_file_fs sample_path = Some []"
    by (simp add: empty_file_fs_def)
  have n: "newline_lines sample_content = 2" "sample_content \<noteq> []"
    by (simp_all add: newline_lines_def sample_content_def)
  from line_count_of_manifest [where fs = sample_fs and path = sample_path, OF f,
      of sample_env sample_meta True True None]
    line_count_of_manifest [where fs = sample_fs and path = sample_path, OF f,
      of sample_env sample_meta False True None]
    line_count_of_manifest [where fs = empty_file_fs and path = sample_path, OF g,
      of sample_env sample_meta True True None] f g n
  show ?thesis
    by auto
qed

text \<open>
  \<^bold>\<open>C10.\<close> For every file, \<^verbatim>\<open>write_manifest_from_file\<close> with \<^verbatim>\<open>header=True\<close> and
  line counting on never reports a negative number of rows; for a file without bytes it
  reports 0; the decrement for the header is applied only when the raw count is positive.
\<close>

theorem header_row_count_never_negative:
  assumes "fs path = Some content"
  shows "\<exists>m raw n. count_file_lines fs path = Inr raw
    \<and> manifest_from_file E fs path meta True infer True extra = Inr m
    \<and> linhas (m_schema_stats m) = Some n
    \<and> 0 \<le> n
    \<and> (content = [] \<longrightarrow> n = 0)
    \<and> n = (if 0 < raw then raw - 1 else raw)"
proof -
  have "0 \<le> newline_lines content"
    by (simp add: newline_lines_def)
  moreover have "content = [] \<longrightarrow> newline_lines content = 0"
    by (simp add: newline_lines_def)
  ultimately show ?thesis
    using manifest_from_file_existing [where fs = fs and path = path, OF assms,
        of E meta True infer True extra] assms
    by (auto simp: count_file_lines_eq)
qed

theorem header_row_count_never_negative_witness:
  "empty_file_fs sample_path = Some []
   \<and> (\<exists>m. manifest_from_file sample_env empty_file_fs sample_path sample_meta True True True
             None = Inr m
          \<and> linhas (m_schema_stats m) = Some 0)"
proof -
  have f: "empty_file_fs sample_path = Some []"
    by (simp add: empty_file_fs_def)
  from header_row_count_never_negative [where fs = empty_file_fs and path = sample_path,
      OF f, of sample_env sample_meta True None] f
  show ?thesis
    by auto
qed

subsection \<open>Validation\<close>

lemma ensure_required_columns_ok:
  "ensure_required_columns df required = Inr () \<longleftrightarrow> set required \<subseteq> set (columns df)"
  by (auto simp: ensure_required_columns_def Let_def filter_empty_conv)

text \<open>
  \<^bold>\<open>C6.\<close> For every dataset and list of required columns,
  \<^verbatim>\<open>ensure_required_columns\<close> raises \<^verbatim>\<open>SchemaError\<close> if and only if some required
  column is absent from the dataset, and the message lists exactly the missing names,
  all of them: the names of the list that are not columns of the dataset.
\<close>

theorem ensure_required_columns_lists_missing:
  "(ensure_required_columns df required = Inr () \<longleftrightarrow> set required \<subseteq> set (columns df))
   \<and> (\<not> set required \<subseteq> set (columns df) \<longrightarrow>
        ensure_required_columns df required
          = Inl (SchemaError (''Colunas ausentes no DataFrame: ''
                   @ py_repr_list (filter (\<lambda>c. c \<notin> set (columns df)) required))))
   \<and> set (filter (\<lambda>c. c \<notin> set (columns df)) required) = set required - set (columns df)"
  by (auto simp: ensure_required_columns_def Let_def filter_empty_conv)

theorem ensure_required_columns_lists_missing_witness:
  "columns sample_df = [''a'', ''c'']
   \<and> \<not> set [''a'', ''b'', ''c''] \<subseteq> set (columns sample_df)
   \<and> ensure_required_columns sample_df [''a'', ''b'', ''c'']
       = Inl (SchemaError (''Colunas ausentes no DataFrame: [''
                             @ [CHR 0x27] @ ''b'' @ [CHR 0x27] @ '']''))
   \<and> ensure_required_columns sample_df [''a'', ''c''] = Inr ()"
proof -
  have c: "columns sample_df = [''a'', ''c'']"
    by (simp add: sample_df_def columns_def)
  have r: "py_repr_list [''b''] = ''['' @ [CHR 0x27] @ ''b'' @ [CHR 0x27] @ '']''"
    by (simp add: py_repr_list_def py_repr_str_def repr_char_def py_printable_def Let_def)
  from ensure_required_columns_lists_missing [of sample_df "[''a'', ''b'', ''c'']"]
    ensure_required_columns_lists_missing [of sample_df "[''a'', ''c'']"] c r
  show ?thesis
    by simp
qed

lemma dtype_str_Int64: "dtype_str d = ''Int64'' \<longleftrightarrow> d = Dt_Int64"
  by (cases d) simp_all

lemma dtype_kind_O: "dtype_kind d = CHR ''O'' \<longleftrightarrow> d = Dt_object"
  by (cases d) simp_all

lemma dtype_kind_f: "dtype_kind d = CHR ''f'' \<longleftrightarrow> d = Dt_float64"
  by (cases d) simp_all

lemma in_wrong_int:
  "(c, e, a) \<in> set (wrong_int df col) \<longleftrightarrow>
     c = col \<and> e = ''Int64''
     \<and> (\<exists>s. map_of df col = Some s \<and> a = dtype_str (dtype_of s) \<and> dtype_of s \<noteq> Dt_Int64)"
  by (cases "map_of df col") (auto simp: wrong_int_def dtype_str_Int64)

lemma in_wrong_str:
  "(c, e, a) \<in> set (wrong_str df col) \<longleftrightarrow>
     c = col \<and> e = ''string(object)''
     \<and> (\<exists>s. map_of df col = Some s \<and> a = dtype_str (dtype_of s) \<and> dtype_of s \<noteq> Dt_object)"
  by (cases "map_of df col") (auto simp: wrong_str_def dtype_kind_O)

lemma in_wrong_float:
  "(c, e, a) \<in> set (wrong_float df col) \<longleftrightarrow>
     c = col \<and> e = ''float''
     \<and> (\<exists>s. map_of df col = Some s \<and> a = dtype_str (dtype_of s) \<and> dtype_of s \<noteq> Dt_float64)"
  by (cases "map_of df col") (auto simp: wrong_float_def dtype_kind_f)

lemma in_wrong:
  "(c, e, a) \<in> set (concat (map (wrong_int df) I) @ concat (map (wrong_str df) S)
          @ concat (map (wrong_float df) F))
   \<longleftrightarrow> mismatch df I S F c e a"
proof (cases "map_of df c")
  case None
  then show ?thesis
    by (auto simp: in_wrong_int in_wrong_str in_wrong_float mismatch_def)
next
  case (Some s)
  then show ?thesis
    by (auto simp: in_wrong_int in_wrong_str in_wrong_float mismatch_def)
qed

lemma sublist_append_left: "sublist x zs \<Longrightarrow> sublist x (ys @ zs)"
  unfolding sublist_def by (metis append.assoc)

lemma sublist_py_join: "x \<in> set xs \<Longrightarrow> sublist x (py_join sep xs)"
proof (induction sep xs rule: py_join.induct)
  case (3 sep y z zs)
  show ?case
  proof (cases "x = y")
    case True
    then show ?thesis
      by (simp add: sublist_append_rightI)
  next
    case False
    with 3 have "sublist x (py_join sep (z # zs))"
      by simp
    then show ?thesis
      by (simp add: sublist_append_left)
  qed
qed simp_all


lemma concat_map_filter:
  "(\<And>x. x \<in> set xs \<Longrightarrow> \<not> P x \<Longrightarrow> f x = []) \<Longrightarrow>
   concat (map f (filter P xs)) = concat (map f xs)"
  by (induction xs) auto

lemma absent_column: "c \<notin> set (columns df) \<Longrightarrow> map_of df c = None"
  by (simp add: columns_def map_of_eq_None_iff)

lemma check_dtypes_skips_absent:
  "check_dtypes df I S F =
   check_dtypes df (filter (\<lambda>c. c \<in> set (columns df)) I)
     (filter (\<lambda>c. c \<in> set (columns df)) S) (filter (\<lambda>c. c \<in> set (columns df)) F)"
proof -
  have "concat (map (wrong_int df) (filter (\<lambda>c. c \<in> set (columns df)) I))
        = concat (map (wrong_int df) I)"
    by (rule concat_map_filter) (simp add: wrong_int_def absent_column)
  moreover have "concat (map (wrong_str df) (filter (\<lambda>c. c \<in> set (columns df)) S))
        = concat (map (wrong_str df) S)"
    by (rule concat_map_filter) (simp add: wrong_str_def absent_column)
  moreover have "concat (map (wrong_float df) (filter (\<lambda>c. c \<in> set (columns df)) F))
        = concat (map (wrong_float df) F)"
    by (rule concat_map_filter) (simp add: wrong_float_def absent_column)
  ultimately show ?thesis
    by (simp add: check_dtypes_def)
qed

text \<open>
  \<^bold>\<open>C5.\<close> For every dataset and declared field lists, \<^verbatim>\<open>check_dtypes\<close> raises
  \<^verbatim>\<open>SchemaError\<close> if and only if at least one declared column that is present has a
  type that does not match its category; the one message then has an entry
  \<^verbatim>\<open><col> esperado <expected>, encontrado <actual>\<close> for every mismatched column, the
  entries joined by \<^verbatim>\<open>"; "\<close>; declared columns that are absent are skipped and never
  cause an error.
\<close>

theorem check_dtypes_reports_every_mismatch:
  "(check_dtypes df I S F = Inr () \<longleftrightarrow> (\<forall>col e a. \<not> mismatch df I S F col e a))
   \<and> ((\<exists>col e a. mismatch df I S F col e a) \<longrightarrow>
        (\<exists>entries msg.
           check_dtypes df I S F = Inl (SchemaError msg)
           \<and> msg = ''Tipos incorretos ap'' @ [CHR 0xF3] @ ''s cast: '' @ py_join ''; '' entries
           \<and> set entries = {col @ '' esperado '' @ e @ '', encontrado '' @ a | col e a.
                              mismatch df I S F col e a}
           \<and> (\<forall>col e a. mismatch df I S F col e a \<longrightarrow>
                 sublist (col @ '' esperado '' @ e @ '', encontrado '' @ a) msg)))
   \<and> check_dtypes df I S F =
       check_dtypes df (filter (\<lambda>c. c \<in> set (columns df)) I)
         (filter (\<lambda>c. c \<in> set (columns df)) S) (filter (\<lambda>c. c \<in> set (columns df)) F)"
proof -
  define wrong where
    "wrong = concat (map (wrong_int df) I) @ concat (map (wrong_str df) S)
               @ concat (map (wrong_float df) F)"
  define entries where "entries = map wrong_entry wrong"
  define msg where
    "msg = ''Tipos incorretos ap'' @ [CHR 0xF3] @ ''s cast: '' @ py_join ''; '' entries"
  have mem: "(c, e, a) \<in> set wrong \<longleftrightarrow> mismatch df I S F c e a" for c e a
    unfolding wrong_def by (rule in_wrong)
  have res: "check_dtypes df I S F = (if wrong \<noteq> [] then Inl (SchemaError msg) else Inr ())"
    by (simp add: check_dtypes_def wrong_def entries_def msg_def Let_def)
  have empty: "wrong = [] \<longleftrightarrow> (\<forall>col e a. \<not> mismatch df I S F col e a)"
  proof
    assume "wrong = []"
    with mem show "\<forall>col e a. \<not> mismatch df I S F col e a"
      by auto
  next
    assume none: "\<forall>col e a. \<not> mismatch df I S F col e a"
    show "wrong = []"
    proof (cases wrong)
      case (Cons w ws)
      obtain c e a where "w = (c, e, a)"
        by (cases w)
      with Cons mem [of c e a] none show ?thesis
        by simp
    qed simp
  qed
  have ok: "check_dtypes df I S F = Inr () \<longleftrightarrow> (\<forall>col e a. \<not> mismatch df I S F col e a)"
    using empty by (simp add: res)
  have entries: "set entries = {col @ '' esperado '' @ e @ '', encontrado '' @ a | col e a.
                              mismatch df I S F col e a}"
  proof (intro set_eqI iffI)
    fix x
    assume "x \<in> set entries"
    then obtain w where w: "w \<in> set wrong" "x = wrong_entry w"
      by (auto simp: entries_def)
    obtain c e a where "w = (c, e, a)"
      by (cases w)
    with w mem [of c e a]
    show "x \<in> {col @ '' esperado '' @ e @ '', encontrado '' @ a | col e a.
                 mismatch df I S F col e a}"
      by (auto simp: wrong_entry_def)
  next
    fix x
    assume "x \<in> {col @ '' esperado '' @ e @ '', encontrado '' @ a | col e a.
                 mismatch df I S F col e a}"
    then obtain c e a where x: "x = c @ '' esperado '' @ e @ '', encontrado '' @ a"
        and "mismatch df I S F c e a"
      by blast
    with mem [of c e a] have "(c, e, a) \<in> set wrong"
      by simp
    then have "wrong_entry (c, e, a) \<in> set entries"
      by (simp add: entries_def)
    with x show "x \<in> set entries"
      by (simp add: wrong_entry_def)
  qed
  have inmsg: "sublist (col @ '' esperado '' @ e @ '', encontrado '' @ a) msg"
    if "mismatch df I S F col e a" for col e a
  proof -
    from that entries have "col @ '' esperado '' @ e @ '', encontrado '' @ a \<in> set entries"
      by blast
    then have "sublist (col @ '' esperado '' @ e @ '', encontrado '' @ a)
                 (py_join ''; '' entries)"
      by (rule sublist_py_join)
    then show ?thesis
      unfolding msg_def by (intro sublist_append_left)
  qed
  have bad: "(\<exists>col e a. mismatch df I S F col e a) \<longrightarrow>
        (\<exists>entries msg.
           check_dtypes df I S F = Inl (SchemaError msg)
           \<and> msg = ''Tipos incorretos ap'' @ [CHR 0xF3] @ ''s cast: '' @ py_join ''; '' entries
           \<and> set entries = {col @ '' esperado '' @ e @ '', encontrado '' @ a | col e a.
                              mismatch df I S F col e a}
           \<and> (\<forall>col e a. mismatch df I S F col e a \<longrightarrow>
                 sublist (col @ '' esperado '' @ e @ '', encontrado '' @ a) msg))"
  proof
    assume "\<exists>col e a. mismatch df I S F col e a"
    with empty have "wrong \<noteq> []"
      by blast
    with res have "check_dtypes df I S F = Inl (SchemaError msg)"
      by simp
    with entries inmsg msg_def show "\<exists>entries msg.
           check_dtypes df I S F = Inl (SchemaError msg)
           \<and> msg = ''Tipos incorretos ap'' @ [CHR 0xF3] @ ''s cast: '' @ py_join ''; '' entries
           \<and> set entries = {col @ '' esperado '' @ e @ '', encontrado '' @ a | col e a.
                              mismatch df I S F col e a}
           \<and> (\<forall>col e a. mismatch df I S F col e a \<longrightarrow>
                 sublist (col @ '' esperado '' @ e @ '', encontrado '' @ a) msg)"
      by blast
  qed
  from ok bad check_dtypes_skips_absent [of df I S F] show ?thesis
    by blast
qed

theorem check_dtypes_reports_every_mismatch_witness:
  "mismatch mistyped_df [''id'', ''ausente''] [''nome'', ''uf''] [''valor'']
      ''id'' ''Int64'' ''object''
   \<and> mismatch mistyped_df [''id'', ''ausente''] [''nome'', ''uf''] [''valor'']
      ''nome'' ''string(object)'' ''int64''
   \<and> mismatch mistyped_df [''id'', ''ausente''] [''nome'', ''uf''] [''valor'']
      ''valor'' ''float'' ''object''
   \<and> check_dtypes mistyped_df [''id'', ''ausente''] [''nome'', ''uf''] [''valor'']
       = Inl (SchemaError (''Tipos incorretos ap'' @ [CHR 0xF3] @ ''s cast: ''
           @ ''id esperado Int64, encontrado object; ''
           @ ''nome esperado string(object), encontrado int64; ''
           @ ''valor esperado float, encontrado object''))
   \<and> check_dtypes mistyped_df [''id'', ''ausente''] [''nome'', ''uf''] [''valor'']
       = check_dtypes mistyped_df [''id''] [''nome'', ''uf''] [''valor'']
   \<and> check_dtypes mistyped_df [''ausente''] [''uf''] [] = Inr ()"
proof -
  have m: "mismatch mistyped_df [''id'', ''ausente''] [''nome'', ''uf''] [''valor'']
      ''id'' ''Int64'' ''object''"
    "mismatch mistyped_df [''id'', ''ausente''] [''nome'', ''uf''] [''valor'']
      ''nome'' ''string(object)'' ''int64''"
    "mismatch mistyped_df [''id'', ''ausente''] [''nome'', ''uf''] [''valor'']
      ''valor'' ''float'' ''object''"
    by (simp_all add: mismatch_def mistyped_df_def)
  have e: "check_dtypes mistyped_df [''id'', ''ausente''] [''nome'', ''uf''] [''valor'']
       = Inl (SchemaError (''Tipos incorretos ap'' @ [CHR 0xF3] @ ''s cast: ''
           @ ''id esperado Int64, encontrado object; ''
           @ ''nome esperado string(object), encontrado int64; ''
           @ ''valor esperado float, encontrado object''))"
    by (simp add: check_dtypes_def mistyped_df_def wrong_int_def wrong_str_def wrong_float_def
        wrong_entry_def)
  have c: "columns mistyped_df = [''id'', ''nome'', ''valor'', ''uf'']"
    by (simp add: columns_def mistyped_df_def)
  have n: "\<forall>col e a. \<not> mismatch mistyped_df [''ausente''] [''uf''] [] col e a"
    by (auto simp: mismatch_def mistyped_df_def split: option.splits if_splits)
  from check_dtypes_reports_every_mismatch
         [of mistyped_df "[''id'', ''ausente'']" "[''nome'', ''uf'']" "[''valor'']"]
       check_dtypes_reports_every_mismatch [of mistyped_df "[''ausente'']" "[''uf'']" "[]"]
       m e c n
  show ?thesis
    by simp
qed

subsection \<open>Casting\<close>

lemma py_rstrip_last: "py_rstrip s \<noteq> [] \<Longrightarrow> \<not> py_isspace (last (py_rstrip s))"
  unfolding py_rstrip_def
  by (metis hd_dropWhile last_rev rev_is_Nil_conv)

lemma py_strip_last: "py_strip s \<noteq> [] \<Longrightarrow> last (py_strip s) \<noteq> CHR 0x0A"
  using py_rstrip_last [of "py_lstrip s"] by (auto simp: py_strip_def py_isspace_def)

lemma re_sub_quotes_scan_False:
  "s \<noteq> [] \<Longrightarrow> last s \<noteq> CHR 0x0A \<Longrightarrow>
   re_sub_quotes_scan False s = (if last s = CHR 0x22 then butlast s else s)"
  by (induction s) auto

lemma re_sub_quotes_spec:
  "s = [] \<or> last s \<noteq> CHR 0x0A \<Longrightarrow> re_sub_quotes s = strip_one_quote_each_side s"
proof (cases s)
  case Nil
  then show ?thesis
    by (simp add: re_sub_quotes_def strip_one_quote_each_side_def)
next
  case (Cons c cs)
  assume "s = [] \<or> last s \<noteq> CHR 0x0A"
  with Cons have nl: "cs \<noteq> [] \<Longrightarrow> last cs \<noteq> CHR 0x0A" and nc: "cs = [] \<Longrightarrow> c \<noteq> CHR 0x0A"
    by auto
  show ?thesis
  proof (cases "cs = []")
    case True
    with Cons show ?thesis
      by (simp add: re_sub_quotes_def strip_one_quote_each_side_def)
  next
    case False
    with Cons nl re_sub_quotes_scan_False [of cs] show ?thesis
      by (simp add: re_sub_quotes_def strip_one_quote_each_side_def)
  qed
qed

lemma to_str_spec:
  "to_str L series =
     ObjectCol (map (\<lambda>s. PyStr (strip_one_quote_each_side (py_strip s))) (astype_str L series))"
proof -
  have "re_sub_quotes (py_strip s) = strip_one_quote_each_side (py_strip s)" for s
    using py_strip_last [of s] by (intro re_sub_quotes_spec) blast
  then show ?thesis
    by (simp add: to_str_def comp_def)
qed

text \<open>
  \<^bold>\<open>C4.\<close> For every input column, \<^verbatim>\<open>to_str\<close> converts each value to text, strips
  the whitespace at both ends, and removes at most one double quote at the front and at
  most one at the back: the regular-expression replacement of the code is the function
  \<open>strip_one_quote_each_side\<close>. The quoted text of the example gives \<^verbatim>\<open>abc\<close>, a
  text without quotes is unchanged, of two layers of quotes one is removed, and values
  that are not strings are turned into their text.
\<close>

theorem to_str_strips_blanks_and_one_quote_layer:
  "to_str L series =
     ObjectCol (map (\<lambda>s. PyStr (strip_one_quote_each_side (py_strip s))) (astype_str L series))
   \<and> to_str L (ObjectCol [PyStr (''  '' @ [CHR 0x22] @ ''abc'' @ [CHR 0x22] @ ''  '')])
       = ObjectCol [PyStr ''abc'']
   \<and> to_str L (ObjectCol [PyStr ''xyz'']) = ObjectCol [PyStr ''xyz'']
   \<and> to_str L (ObjectCol [PyStr ([CHR 0x22, CHR 0x22] @ ''abc'' @ [CHR 0x22, CHR 0x22])])
       = ObjectCol [PyStr ([CHR 0x22] @ ''abc'' @ [CHR 0x22])]
   \<and> to_str L (ObjectCol [PyStr [CHR 0x22], PyFloat NaN, PyInt 42, PyNone])
       = ObjectCol [PyStr [], PyStr ''nan'', PyStr ''42'', PyStr ''None'']"
proof (intro conjI)
  show "to_str L series =
     ObjectCol (map (\<lambda>s. PyStr (strip_one_quote_each_side (py_strip s))) (astype_str L series))"
    by (rule to_str_spec)
  show "to_str L (ObjectCol [PyStr (''  '' @ [CHR 0x22] @ ''abc'' @ [CHR 0x22] @ ''  '')])
       = ObjectCol [PyStr ''abc'']"
    by (simp add: to_str_def py_strip_def py_lstrip_def py_rstrip_def py_isspace_def
        re_sub_quotes_def)
  show "to_str L (ObjectCol [PyStr ''xyz'']) = ObjectCol [PyStr ''xyz'']"
    by (simp add: to_str_def py_strip_def py_lstrip_def py_rstrip_def py_isspace_def
        re_sub_quotes_def)
  show "to_str L (ObjectCol [PyStr ([CHR 0x22, CHR 0x22] @ ''abc'' @ [CHR 0x22, CHR 0x22])])
       = ObjectCol [PyStr ([CHR 0x22] @ ''abc'' @ [CHR 0x22])]"
    by (simp add: to_str_def py_strip_def py_lstrip_def py_rstrip_def py_isspace_def
        re_sub_quotes_def)
  have "dec_digits 42 = ''42''"
    by (simp add: dec_digits.simps)
  then show "to_str L (ObjectCol [PyStr [CHR 0x22], PyFloat NaN, PyInt 42, PyNone])
       = ObjectCol [PyStr [], PyStr ''nan'', PyStr ''42'', PyStr ''None'']"
    by (simp add: to_str_def py_strip_def py_lstrip_def py_rstrip_def py_isspace_def
        re_sub_quotes_def py_str_int_def)
qed

lemma replace_scan_char:
  "replace_scan [c] new s = concat (map (\<lambda>x. if x = c then new else [x]) s)"
  by (induction s) auto

lemma py_replace_dot: "py_replace ''.'' [] s = filter (\<lambda>c. c \<noteq> CHR ''.'') s"
  by (induction s) (auto simp: py_replace_def replace_scan_char)

lemma py_replace_comma:
  "py_replace '','' ''.'' s = map (\<lambda>c. if c = CHR '','' then CHR ''.'' else c) s"
  by (induction s) (auto simp: py_replace_def replace_scan_char)

lemma locale_decimal_text_eq:
  "py_replace '','' ''.'' (py_replace ''.'' [] s) = locale_decimal_text s"
  by (simp add: py_replace_dot py_replace_comma locale_decimal_text_def)

text \<open>The float of an integer below \<open>2 ^ 53\<close> in absolute value is that integer.\<close>

lemma bit_len_le: "n < 2 ^ k \<Longrightarrow> bit_len n \<le> k"
proof (induction n arbitrary: k rule: bit_len.induct)
  case (1 n)
  show ?case
  proof (cases "n = 0")
    case True
    then show ?thesis
      by (simp add: bit_len.simps)
  next
    case False
    with "1.prems" obtain j where k: "k = Suc j"
      by (cases k) auto
    with "1.prems" have "n div 2 < 2 ^ j"
      by auto
    from "1.IH" [OF False this] False k show ?thesis
      by (subst bit_len.simps) simp
  qed
qed

lemma round53_exact: "a < 2 ^ 53 \<Longrightarrow> round53 a = a"
proof -
  assume "a < 2 ^ 53"
  from bit_len_le [OF this] have "bit_len a - 53 = 0"
    by simp
  then show ?thesis
    by (simp add: round53_def)
qed

lemma float64_of_int_exact:
  assumes "\<bar>i\<bar> < 2 ^ 53"
  shows "float64_of_int i = Fin (of_int i)"
proof -
  from assms have small: "nat \<bar>i\<bar> < 2 ^ 53"
    by (simp add: nat_less_iff)
  then have r: "round53 (nat \<bar>i\<bar>) = nat \<bar>i\<bar>"
    by (rule round53_exact)
  have "(2::nat) ^ 53 < 2 ^ 1024"
    by (rule power_strict_increasing) simp_all
  with small have "\<not> (2::nat) ^ 1024 \<le> nat \<bar>i\<bar>"
    by (metis less_trans not_le)
  then have "float64_of_int i
             = Fin (of_int (if i < 0 then - int (nat \<bar>i\<bar>) else int (nat \<bar>i\<bar>)))"
    unfolding float64_of_int_def r Let_def by (rule if_not_P)
  also have "(if i < 0 then - int (nat \<bar>i\<bar>) else int (nat \<bar>i\<bar>)) = i"
    by simp
  finally show ?thesis .
qed

lemma float64_of_int_small:
  "float64_of_int 12 = Fin 12" "float64_of_int 7 = Fin 7" "float64_of_int (- 7) = Fin (- 7)"
  using float64_of_int_exact [of 12] float64_of_int_exact [of 7] float64_of_int_exact [of "- 7"]
  by simp_all

lemma all_int_floats:
  "list_all num_is_int64 ns \<Longrightarrow>
   map float64_of_int (concat (map num_ints ns)) = map num_float ns"
proof (induction ns)
  case (Cons n ns)
  then show ?case
    by (cases n) simp_all
qed simp

lemma astype_float_to_numeric_object:
  "astype_float (to_numeric L (ObjectCol cs)) = Float64Col (map (\<lambda>c. num_float (coerce_cell L c)) cs)"
  using all_int_floats [of "map (coerce_cell L) cs"]
  by (simp add: Let_def comp_def)

lemma num_float_coerce_str: "num_float (coerce_cell L (PyStr s)) = parsed_float L s"
  by (simp add: parsed_float_def split: option.splits)

lemma to_float_pt_object:
  "to_float_pt L (ObjectCol cs) =
     NumericCol (Float64Col (map (\<lambda>s. parsed_float L (locale_decimal_text s))
                               (astype_str L (ObjectCol cs))))"
  by (simp add: to_float_pt_def astype_float_to_numeric_object num_float_coerce_str
      locale_decimal_text_eq comp_def
      del: to_numeric.simps astype_str.simps coerce_cell.simps)

text \<open>
  \<^bold>\<open>C3.\<close> For every input column, \<^verbatim>\<open>to_float_pt\<close> passes a numeric column through
  as floating point; for any other column, the text of each value has every dot removed,
  then every comma replaced by a dot, and is then parsed as a number, a text that does
  not parse giving NaN. The general statement holds for every parser; with the parser
  of decimal literals, \<^verbatim>\<open>1.234,56\<close> gives 1234.56, \<^verbatim>\<open>10,5\<close> gives 10.5 and a
  text that is not a number gives NaN.
\<close>

theorem to_float_pt_locale_decimal:
  "to_float_pt L (NumericCol (Float64Col fs)) = NumericCol (Float64Col fs)
   \<and> to_float_pt L (NumericCol (Int64Col xs)) = NumericCol (Float64Col (map float64_of_int xs))
   \<and> to_float_pt L (NumericCol (Int64Col [12, - 7])) = NumericCol (Float64Col [Fin 12, Fin (- 7)])
   \<and> to_float_pt L (NumericCol (NullableInt64Col os))
       = NumericCol (Float64Col (map (\<lambda>x. case x of None \<Rightarrow> NaN | Some i \<Rightarrow> float64_of_int i) os))
   \<and> to_float_pt L (ObjectCol cs)
       = NumericCol (Float64Col (map (\<lambda>s. parsed_float L (locale_decimal_text s))
                                   (astype_str L (ObjectCol cs))))
   \<and> locale_decimal_text ''1.234,56'' = ''1234.56''
   \<and> locale_decimal_text ''10,5'' = ''10.5''
   \<and> to_float_pt decimal_lib
         (ObjectCol [PyStr ''1.234,56'', PyStr ''10,5'', PyStr ''abc'', PyFloat NaN])
       = NumericCol (Float64Col [Fin (123456 / 100), Fin (105 / 10), NaN, NaN])"
proof (intro conjI)
  show "to_float_pt L (NumericCol (Float64Col fs)) = NumericCol (Float64Col fs)"
    by (simp add: to_float_pt_def)
  show "to_float_pt L (NumericCol (Int64Col xs)) = NumericCol (Float64Col (map float64_of_int xs))"
    by (simp add: to_float_pt_def)
  show "to_float_pt L (NumericCol (Int64Col [12, - 7])) = NumericCol (Float64Col [Fin 12, Fin (- 7)])"
    by (simp add: to_float_pt_def float64_of_int_small)
  show "to_float_pt L (NumericCol (NullableInt64Col os))
       = NumericCol (Float64Col (map (\<lambda>x. case x of None \<Rightarrow> NaN | Some i \<Rightarrow> float64_of_int i) os))"
    by (simp add: to_float_pt_def)
  show "to_float_pt L (ObjectCol cs)
       = NumericCol (Float64Col (map (\<lambda>s. parsed_float L (locale_decimal_text s))
                                   (astype_str L (ObjectCol cs))))"
    by (rule to_float_pt_object)
  show "locale_decimal_text ''1.234,56'' = ''1234.56''"
    by (simp add: locale_decimal_text_def)
  show "locale_decimal_text ''10,5'' = ''10.5''"
    by (simp add: locale_decimal_text_def)
  have "parse_decimal ''1234.56'' = Some (NFloat (Fin (123456 / 100)))"
    and "parse_decimal ''10.5'' = Some (NFloat (Fin (105 / 10)))"
    and "parse_decimal ''abc'' = None" and "parse_decimal ''nan'' = None"
    by (simp_all add: parse_decimal_def parse_unsigned_def is_digit_def digits_val_def)
  then show "to_float_pt decimal_lib
         (ObjectCol [PyStr ''1.234,56'', PyStr ''10,5'', PyStr ''abc'', PyFloat NaN])
       = NumericCol (Float64Col [Fin (123456 / 100), Fin (105 / 10), NaN, NaN])"
    by (simp add: to_float_pt_object locale_decimal_text_def parsed_float_def decimal_lib_def)
qed

lemma floor_three_halves: "\<lfloor>3 / 2 :: rat\<rfloor> = 1"
  by linarith

lemma float_to_Int64_fraction: "float_to_Int64 (Fin (3 / 2)) = Inl TypeError"
  by (simp add: floor_three_halves)

lemma float_to_Int64_twelve: "float_to_Int64 (Fin 12) = Inr (Some 12)"
  by (simp add: in_int64_def)

lemma parse_decimal_fraction: "parse_decimal ''1.5'' = Some (NFloat (Fin (3 / 2)))"
  by (simp add: parse_decimal_def parse_unsigned_def is_digit_def digits_val_def)

lemma parse_decimal_twelve: "parse_decimal ''12'' = Some (NInt 12)"
  by (simp add: parse_decimal_def parse_unsigned_def is_digit_def digits_val_def)

text \<open>
  \<^bold>\<open>C2\<close> says that \<^verbatim>\<open>to_int\<close> gives, for every input column, a column of
  integers and nulls and never raises on a value. The code at a column that holds a
  number with a fraction, as text or as a float: \<^verbatim>\<open>pd.to_numeric\<close> reads 1.5, and
  the cast to \<^verbatim>\<open>Int64\<close> raises \<^verbatim>\<open>TypeError\<close>.
\<close>

theorem to_int_raises_on_fraction:
  "to_int decimal_lib (ObjectCol [PyStr ''12'', PyStr ''1.5'']) = Inl TypeError
   \<and> to_int L (NumericCol (Float64Col [Fin 12, Fin (3 / 2)])) = Inl TypeError"
  by (simp add: to_int_def decimal_lib_def parse_decimal_twelve parse_decimal_fraction
      float64_of_int_small float_to_Int64_twelve float_to_Int64_fraction
      del: float_to_Int64.simps)

text \<open>
  The example of the specification, and what does hold of \<^verbatim>\<open>to_int\<close>: a column that
  it returns holds integers and nulls, and it does return when every value does not parse
  or is an integer below \<open>2 ^ 53\<close> in absolute value. (Beside a value that does not
  parse the integers pass through float64, where a larger one is rounded or does not fit
  the 64 bits any more.)
\<close>

lemma to_int_example:
  "to_int decimal_lib (ObjectCol [PyStr ''12'', PyStr ''abc'', PyStr [], PyStr ''7''])
     = Inr (NumericCol (NullableInt64Col [Some 12, None, None, Some 7]))"
  by (simp add: to_int_def decimal_lib_def parse_decimal_def parse_unsigned_def is_digit_def
      digits_val_def in_int64_def float64_of_int_small)

lemma to_int_returns_nullable_ints:
  "to_int L series = Inr c \<Longrightarrow> \<exists>xs. c = NumericCol (NullableInt64Col xs)"
  by (cases "to_numeric L series")
     (auto simp: to_int_def split: sum.splits)

lemma collect_all_Inr: "\<forall>r\<in>set rs. \<exists>x. r = Inr x \<Longrightarrow> \<exists>xs. collect rs = Inr xs"
proof (induction rs)
  case (Cons r rs)
  then obtain x xs where "r = Inr x" "collect rs = Inr xs"
    by auto
  then show ?case
    by simp
qed simp

lemma to_int_lenient_on_unparsable:
  assumes "\<forall>c\<in>set cs. coerce_cell L c = NFloat NaN
             \<or> (\<exists>i. coerce_cell L c = NInt i \<and> \<bar>i\<bar> < 2 ^ 53)"
  shows "\<exists>xs. to_int L (ObjectCol cs) = Inr (NumericCol (NullableInt64Col xs))"
proof (cases "list_all num_is_int64 (map (coerce_cell L) cs)")
  case True
  then show ?thesis
    by (simp add: to_int_def)
next
  case False
  have small: "in_int64 i" if "\<bar>i\<bar> < 2 ^ 53" for i :: int
    using that unfolding in_int64_def by (simp add: abs_less_iff)
  have "\<exists>x. float_to_Int64 (num_float (coerce_cell L c)) = Inr x" if "c \<in> set cs" for c
    using assms that small by (cases "coerce_cell L c") (auto simp: float64_of_int_exact)
  then have "\<forall>r\<in>set (map (\<lambda>c. float_to_Int64 (num_float (coerce_cell L c))) cs). \<exists>x. r = Inr x"
    by auto
  from collect_all_Inr [OF this] obtain xs where
    "collect (map (\<lambda>c. float_to_Int64 (num_float (coerce_cell L c))) cs) = Inr xs"
    by blast
  with False show ?thesis
    by (simp add: to_int_def comp_def)
qed

lemma columns_setcol: "col \<in> set (columns df) \<Longrightarrow> columns (setcol df col v) = columns df"
  by (induction df) (auto simp: setcol_def columns_def)

lemma map_of_Some_column: "map_of df col = Some s \<Longrightarrow> col \<in> set (columns df)"
  by (induction df) (auto simp: columns_def split: if_splits)

lemma cast_loop_columns: "columns (fst (cast_loop cast cols df)) = columns df"
proof (induction cast cols df rule: cast_loop.induct)
  case (1 cast df)
  show ?case
    by simp
next
  case (2 cast col cols df)
  show ?case
  proof (cases "map_of df col")
    case None
    with "2.IH"(1) show ?thesis
      by simp
  next
    case (Some s)
    show ?thesis
    proof (cases "cast s")
      case (Inl e)
      with Some show ?thesis
        by simp
    next
      case (Inr s')
      from "2.IH"(2) [OF Some Inr] columns_setcol [OF map_of_Some_column [OF Some]]
      show ?thesis
        using Some Inr by simp
    qed
  qed
qed

lemma map_of_replace_other:
  "c \<noteq> col \<Longrightarrow>
   map_of (map (\<lambda>(k, old). if k = col then (k, v) else (k, old)) df) c = map_of df c"
  by (induction df) auto

lemma map_of_setcol_other:
  "c \<noteq> col \<Longrightarrow> map_of (setcol df col v) c = map_of df c"
  by (auto simp: setcol_def map_of_replace_other map_add_def split: option.splits)

lemma cast_loop_other:
  "c \<notin> set cols \<Longrightarrow> map_of (fst (cast_loop cast cols df)) c = map_of df c"
proof (induction cast cols df rule: cast_loop.induct)
  case (1 cast df)
  show ?case
    by simp
next
  case (2 cast col cols df)
  from "2.prems" have ne: "c \<noteq> col" and notin: "c \<notin> set cols"
    by auto
  show ?case
  proof (cases "map_of df col")
    case None
    with "2.IH"(1) [OF None notin] show ?thesis
      by simp
  next
    case (Some s)
    show ?thesis
    proof (cases "cast s")
      case (Inl e)
      with Some show ?thesis
        by simp
    next
      case (Inr s')
      from "2.IH"(2) [OF Some Inr notin] map_of_setcol_other [OF ne]
      show ?thesis
        using Some Inr by simp
    qed
  qed
qed

lemma map_of_replace_same:
  "col \<in> fst ` set df \<Longrightarrow>
   map_of (map (\<lambda>(k, old). if k = col then (k, v) else (k, old)) df) col = Some v"
  by (induction df) auto

lemma map_of_setcol_same: "map_of (setcol df col v) col = Some v"
proof (cases "col \<in> set (columns df)")
  case True
  then show ?thesis
    by (simp add: setcol_def columns_def map_of_replace_same)
next
  case False
  then have "map_of df col = None"
    by (simp add: columns_def map_of_eq_None_iff)
  with False show ?thesis
    by (simp add: setcol_def map_add_def)
qed

lemma cast_loop_listed:
  "distinct cols \<Longrightarrow> c \<in> set cols \<Longrightarrow> cast_loop cast cols df = (df', None) \<Longrightarrow>
   map_of df c = Some s \<Longrightarrow> \<exists>s'. cast s = Inr s' \<and> map_of df' c = Some s'"
proof (induction cast cols df rule: cast_loop.induct)
  case (1 cast df)
  then show ?case
    by simp
next
  case (2 cast col cols df)
  from "2.prems"(1) have dist: "distinct cols" and fresh: "col \<notin> set cols"
    by auto
  show ?case
  proof (cases "map_of df col")
    case None
    with "2.prems"(4) have ne: "c \<noteq> col"
      by auto
    with "2.prems"(2) have mem: "c \<in> set cols"
      by simp
    from "2.prems"(3) None have "cast_loop cast cols df = (df', None)"
      by simp
    from "2.IH"(1) [OF None dist mem this "2.prems"(4)] show ?thesis .
  next
    case (Some t)
    show ?thesis
    proof (cases "cast t")
      case (Inl e)
      with Some "2.prems"(3) show ?thesis
        by simp
    next
      case (Inr t')
      with Some "2.prems"(3) have run: "cast_loop cast cols (setcol df col t') = (df', None)"
        by simp
      show ?thesis
      proof (cases "c = col")
        case True
        with Some "2.prems"(4) have "t = s"
          by simp
        moreover from cast_loop_other [OF fresh, of cast "setcol df col t'"] run
        have "map_of df' col = Some t'"
          by (simp add: map_of_setcol_same)
        ultimately show ?thesis
          using Inr True by simp
      next
        case False
        with "2.prems"(2) have mem: "c \<in> set cols"
          by simp
        from False "2.prems"(4) have "map_of (setcol df col t') c = Some s"
          by (simp add: map_of_setcol_other)
        from "2.IH"(2) [OF Some Inr dist mem run this] show ?thesis .
      qed
    qed
  qed
qed

lemma apply_casts_frame:
  "\<exists>d. fst (apply_casts L st df I S F) = st(df := d) \<and> columns d = columns (st df)
       \<and> (\<forall>c. c \<notin> set I \<union> set S \<union> set F \<longrightarrow> map_of d c = map_of (st df) c)"
proof -
  obtain d1 e1 where c1: "cast_loop (to_int L) I (st df) = (d1, e1)"
    by (cases "cast_loop (to_int L) I (st df)")
  obtain d2 e2 where c2: "cast_loop (\<lambda>c. Inr (to_str L c)) S d1 = (d2, e2)"
    by (cases "cast_loop (\<lambda>c. Inr (to_str L c)) S d1")
  obtain d3 e3 where c3: "cast_loop (\<lambda>c. Inr (to_float_pt L c)) F d2 = (d3, e3)"
    by (cases "cast_loop (\<lambda>c. Inr (to_float_pt L c)) F d2")
  have k1: "columns d1 = columns (st df)"
    using cast_loop_columns [of "to_int L" I "st df"] c1 by simp
  have k2: "columns d2 = columns d1"
    using cast_loop_columns [of "\<lambda>c. Inr (to_str L c)" S d1] c2 by simp
  have k3: "columns d3 = columns d2"
    using cast_loop_columns [of "\<lambda>c. Inr (to_float_pt L c)" F d2] c3 by simp
  have o1: "c \<notin> set I \<Longrightarrow> map_of d1 c = map_of (st df) c" for c
    using cast_loop_other [of c I "to_int L" "st df"] c1 by simp
  have o2: "c \<notin> set S \<Longrightarrow> map_of d2 c = map_of d1 c" for c
    using cast_loop_other [of c S "\<lambda>c. Inr (to_str L c)" d1] c2 by simp
  have o3: "c \<notin> set F \<Longrightarrow> map_of d3 c = map_of d2 c" for c
    using cast_loop_other [of c F "\<lambda>c. Inr (to_float_pt L c)" d2] c3 by simp
  have "fst (apply_casts L st df I S F) = st(df := d1)
        \<or> fst (apply_casts L st df I S F) = st(df := d2)
        \<or> fst (apply_casts L st df I S F) = st(df := d3)"
    using c1 c2 c3 by (simp add: apply_casts_def split: option.splits)
  then show ?thesis
  proof (elim disjE)
    assume "fst (apply_casts L st df I S F) = st(df := d1)"
    with k1 o1 show ?thesis
      by (intro exI [of _ d1]) simp
  next
    assume "fst (apply_casts L st df I S F) = st(df := d2)"
    with k1 k2 o1 o2 show ?thesis
      by (intro exI [of _ d2]) simp
  next
    assume "fst (apply_casts L st df I S F) = st(df := d3)"
    with k1 k2 k3 o1 o2 o3 show ?thesis
      by (intro exI [of _ d3]) simp
  qed
qed

lemma apply_casts_success:
  assumes "apply_casts L st df I S F = (st', Inr r)"
  shows "\<exists>d1 d2 d3. cast_loop (to_int L) I (st df) = (d1, None)
           \<and> cast_loop (\<lambda>c. Inr (to_str L c)) S d1 = (d2, None)
           \<and> cast_loop (\<lambda>c. Inr (to_float_pt L c)) F d2 = (d3, None)
           \<and> st' = st(df := d3) \<and> r = df"
  using assms by (auto simp: apply_casts_def split: prod.splits option.splits)

lemma apply_casts_listed:
  assumes run: "apply_casts L st df I S F = (st', Inr r)"
    and dist: "distinct (I @ S @ F)"
    and col: "map_of (st df) c = Some s"
  shows "(c \<in> set I \<longrightarrow> (\<exists>s'. to_int L s = Inr s' \<and> map_of (st' df) c = Some s'))
       \<and> (c \<in> set S \<longrightarrow> map_of (st' df) c = Some (to_str L s))
       \<and> (c \<in> set F \<longrightarrow> map_of (st' df) c = Some (to_float_pt L s))"
proof -
  from apply_casts_success [OF run] obtain d1 d2 d3 where
    c1: "cast_loop (to_int L) I (st df) = (d1, None)"
    and c2: "cast_loop (\<lambda>c. Inr (to_str L c)) S d1 = (d2, None)"
    and c3: "cast_loop (\<lambda>c. Inr (to_float_pt L c)) F d2 = (d3, None)"
    and st': "st' = st(df := d3)"
    by blast
  from dist have dI: "distinct I" and dS: "distinct S" and dF: "distinct F"
    and IS: "set I \<inter> set S = {}" and IF: "set I \<inter> set F = {}" and SF: "set S \<inter> set F = {}"
    by auto
  have o1: "x \<notin> set I \<Longrightarrow> map_of d1 x = map_of (st df) x" for x
    using cast_loop_other [of x I "to_int L" "st df"] c1 by simp
  have o2: "x \<notin> set S \<Longrightarrow> map_of d2 x = map_of d1 x" for x
    using cast_loop_other [of x S "\<lambda>c. Inr (to_str L c)" d1] c2 by simp
  have o3: "x \<notin> set F \<Longrightarrow> map_of d3 x = map_of d2 x" for x
    using cast_loop_other [of x F "\<lambda>c. Inr (to_float_pt L c)" d2] c3 by simp
  have "\<exists>s'. to_int L s = Inr s' \<and> map_of (st' df) c = Some s'" if "c \<in> set I"
  proof -
    from cast_loop_listed [OF dI that c1 col] obtain s' where
      "to_int L s = Inr s'" "map_of d1 c = Some s'"
      by blast
    moreover from that IS IF have "c \<notin> set S" "c \<notin> set F"
      by auto
    ultimately show ?thesis
      using o2 [of c] o3 [of c] by (simp add: st')
  qed
  moreover have "map_of (st' df) c = Some (to_str L s)" if "c \<in> set S"
  proof -
    from that IS SF have "c \<notin> set I" "c \<notin> set F"
      by auto
    with o1 [of c] col have "map_of d1 c = Some s"
      by simp
    from cast_loop_listed [OF dS that c2 this] have "map_of d2 c = Some (to_str L s)"
      by auto
    with \<open>c \<notin> set F\<close> o3 [of c] show ?thesis
      by (simp add: st')
  qed
  moreover have "map_of (st' df) c = Some (to_float_pt L s)" if "c \<in> set F"
  proof -
    from that IF SF have "c \<notin> set I" "c \<notin> set S"
      by auto
    with o1 [of c] o2 [of c] col have "map_of d2 c = Some s"
      by simp
    from cast_loop_listed [OF dF that c3 this] show ?thesis
      by (auto simp: st')
  qed
  ultimately show ?thesis
    by blast
qed

text \<open>
  \<^bold>\<open>C8\<close>, as stated: \<^verbatim>\<open>apply_casts\<close> works on a copy and leaves the dataset of the
  caller unchanged. The dataset behind the reference 0 is another one after the call.
\<close>

theorem apply_casts_mutates_counterexample:
  "fst (apply_casts decimal_lib sample_store 0 [] [''nome''] []) 0
     = [(''id'', ObjectCol [PyStr ''12'']), (''nome'', ObjectCol [PyStr ''abc'']),
        (''valor'', ObjectCol [PyStr ''1.234,56'']), (''uf'', ObjectCol [PyStr ''SP''])]
   \<and> fst (apply_casts decimal_lib sample_store 0 [] [''nome''] []) 0 \<noteq> sample_store 0
   \<and> snd (apply_casts decimal_lib sample_store 0 [] [''nome''] []) = Inr 0"
  by (simp add: apply_casts_def sample_store_def quoted_df_def setcol_def columns_def
      to_str_def py_strip_def py_lstrip_def py_rstrip_def py_isspace_def re_sub_quotes_def)

text \<open>
  \<^bold>\<open>C8\<close>, amended: \<^verbatim>\<open>apply_casts\<close> casts the columns of the dataset of the caller in
  place and returns that same dataset. After the call no other dataset has changed, the
  dataset has the same column names in the same order, and every column named in none of
  the three lists is unchanged; when the call returns and no name occurs twice in the
  three lists, every listed column that is present holds the cast of its old values.
\<close>

theorem apply_casts_in_place:
  assumes "apply_casts L st df I S F = (st', res)"
  shows "(\<forall>r. r \<noteq> df \<longrightarrow> st' r = st r)
    \<and> columns (st' df) = columns (st df)
    \<and> (\<forall>c. c \<notin> set I \<union> set S \<union> set F \<longrightarrow> map_of (st' df) c = map_of (st df) c)
    \<and> (\<forall>r. res = Inr r \<longrightarrow> r = df)
    \<and> (\<forall>r c s. res = Inr r \<and> distinct (I @ S @ F) \<and> map_of (st df) c = Some s \<longrightarrow>
          (c \<in> set I \<longrightarrow> (\<exists>s'. to_int L s = Inr s' \<and> map_of (st' df) c = Some s'))
          \<and> (c \<in> set S \<longrightarrow> map_of (st' df) c = Some (to_str L s))
          \<and> (c \<in> set F \<longrightarrow> map_of (st' df) c = Some (to_float_pt L s)))"
proof -
  from apply_casts_frame [of L st df I S F] assms obtain d where
    d: "st' = st(df := d)" "columns d = columns (st df)"
       "\<forall>c. c \<notin> set I \<union> set S \<union> set F \<longrightarrow> map_of d c = map_of (st df) c"
    by auto
  have same: "\<forall>r. res = Inr r \<longrightarrow> r = df"
    using apply_casts_success [of L st df I S F st'] assms by auto
  have listed: "\<forall>r c s. res = Inr r \<and> distinct (I @ S @ F) \<and> map_of (st df) c = Some s \<longrightarrow>
          (c \<in> set I \<longrightarrow> (\<exists>s'. to_int L s = Inr s' \<and> map_of (st' df) c = Some s'))
          \<and> (c \<in> set S \<longrightarrow> map_of (st' df) c = Some (to_str L s))
          \<and> (c \<in> set F \<longrightarrow> map_of (st' df) c = Some (to_float_pt L s))"
  proof (intro allI impI)
    fix r c s
    assume h: "res = Inr r \<and> distinct (I @ S @ F) \<and> map_of (st df) c = Some s"
    with assms have "apply_casts L st df I S F = (st', Inr r)"
      by simp
    from apply_casts_listed [OF this] h
    show "(c \<in> set I \<longrightarrow> (\<exists>s'. to_int L s = Inr s' \<and> map_of (st' df) c = Some s'))
          \<and> (c \<in> set S \<longrightarrow> map_of (st' df) c = Some (to_str L s))
          \<and> (c \<in> set F \<longrightarrow> map_of (st' df) c = Some (to_float_pt L s))"
      by blast
  qed
  from d same listed show ?thesis
    by simp
qed

theorem apply_casts_in_place_witness:
  "apply_casts decimal_lib sample_store 0 [''id''] [''nome''] [''valor'']
     = (sample_store(0 := cast_df), Inr 0)
   \<and> distinct ([''id''] @ [''nome''] @ [''valor''])
   \<and> map_of (sample_store 0) ''id'' = Some (ObjectCol [PyStr ''12''])
   \<and> (1::nat) \<noteq> 0 \<and> (sample_store(0 := cast_df)) 1 = sample_store 1
   \<and> columns ((sample_store(0 := cast_df)) 0) = columns (sample_store 0)
   \<and> ''uf'' \<notin> set [''id''] \<union> set [''nome''] \<union> set [''valor'']
   \<and> map_of ((sample_store(0 := cast_df)) 0) ''uf'' = map_of (sample_store 0) ''uf''
   \<and> (\<exists>s'. to_int decimal_lib (ObjectCol [PyStr ''12'']) = Inr s'
          \<and> map_of ((sample_store(0 := cast_df)) 0) ''id'' = Some s')
   \<and> map_of ((sample_store(0 := cast_df)) 0) ''nome''
       = Some (to_str decimal_lib
                 (ObjectCol [PyStr (''  '' @ [CHR 0x22] @ ''abc'' @ [CHR 0x22] @ ''  '')]))
   \<and> map_of ((sample_store(0 := cast_df)) 0) ''valor''
       = Some (to_float_pt decimal_lib (ObjectCol [PyStr ''1.234,56'']))"
proof -
  have p: "parse_decimal ''12'' = Some (NInt 12)"
    "parse_decimal ''1234.56'' = Some (NFloat (Fin (123456 / 100)))"
    by (simp_all add: parse_decimal_def parse_unsigned_def is_digit_def digits_val_def)
  have f: "to_float_pt decimal_lib (ObjectCol [PyStr ''1.234,56''])
           = NumericCol (Float64Col [Fin (123456 / 100)])"
    by (simp add: to_float_pt_object locale_decimal_text_def parsed_float_def decimal_lib_def p)
  have s: "to_str decimal_lib
             (ObjectCol [PyStr (''  '' @ [CHR 0x22] @ ''abc'' @ [CHR 0x22] @ ''  '')])
           = ObjectCol [PyStr ''abc'']"
    by (simp add: to_str_def py_strip_def py_lstrip_def py_rstrip_def py_isspace_def
        re_sub_quotes_def)
  have i: "to_int decimal_lib (ObjectCol [PyStr ''12''])
           = Inr (NumericCol (NullableInt64Col [Some 12]))"
    by (simp add: to_int_def decimal_lib_def in_int64_def p)
  have e: "apply_casts decimal_lib sample_store 0 [''id''] [''nome''] [''valor'']
     = (sample_store(0 := cast_df), Inr 0)"
    using f s i
    by (simp add: apply_casts_def sample_store_def quoted_df_def cast_df_def setcol_def
        columns_def)
  have m: "map_of (sample_store 0) ''id'' = Some (ObjectCol [PyStr ''12''])"
    "map_of (sample_store 0) ''nome''
       = Some (ObjectCol [PyStr (''  '' @ [CHR 0x22] @ ''abc'' @ [CHR 0x22] @ ''  '')])"
    "map_of (sample_store 0) ''valor'' = Some (ObjectCol [PyStr ''1.234,56''])"
    by (simp_all add: sample_store_def quoted_df_def)
  have d: "distinct ([''id''] @ [''nome''] @ [''valor''])"
    by simp
  from apply_casts_in_place [OF e] e m d show ?thesis
    by auto
qed

end
